theory Spec2Isabelle
  imports Main
begin

section \<open>Python values and the environment\<close>

text \<open>
  Both scripts build a list of command-line tokens and hand it to
  \<^verbatim>\<open>subprocess.run(cmd, check=True)\<close>. An \<^verbatim>\<open>Optional[str]\<close> is a
  \<^typ>\<open>string option\<close>; Python tests it for truth, and both \<^verbatim>\<open>None\<close> and the
  empty string are false.
\<close>

definition truthy :: "string option \<Rightarrow> bool" where
  "truthy s = (case s of None \<Rightarrow> False | Some t \<Rightarrow> t \<noteq> [])"

text \<open>
  What \<^verbatim>\<open>subprocess.run\<close> meets: the child ran and left a return code, or the
  executable was not there (\<^verbatim>\<open>FileNotFoundError\<close>) and no process was started. With
  \<^verbatim>\<open>check=True\<close> a nonzero return code is raised as \<^verbatim>\<open>CalledProcessError\<close>.
  These are the two ways out of the call that the scripts themselves handle. Other ways
  out are not outcomes here: a \<^verbatim>\<open>PermissionError\<close>, or a \<^verbatim>\<open>KeyboardInterrupt\<close> while
  the child runs (which \<^verbatim>\<open>run_interactive\<close> of app.py would catch and turn into
  \<^verbatim>\<open>sys.exit(0)\<close>). Every statement below is about calls that come back with a return
  code or with \<^verbatim>\<open>FileNotFoundError\<close>.
\<close>

datatype proc_result = Exited int | NotFound

text \<open>
  The external world is a parameter: \<open>procs n cmd\<close> is what the \<open>n\<close>-th spawn of the
  run (counted from 0) gives when it is started with the tokens \<open>cmd\<close>, and \<open>ex p\<close>
  says whether \<^verbatim>\<open>Path(p).exists()\<close>.
\<close>

type_synonym procs = "nat \<Rightarrow> string list \<Rightarrow> proc_result"

type_synonym files = "string \<Rightarrow> bool"

text \<open>
  What the scripts print, one constructor for each message; the texts themselves are
  left out, the values they show are kept. The banner of the interactive script (six
  \<^verbatim>\<open>print\<close> statements in a row) is one message.
\<close>

datatype message =
    YtdlpNotFound
  | InstallationInstructions
  | CookiesNotFoundWarning string
  | ErrorDownloadingVideo "string list" int
  | ErrorGettingFormats "string list" int
  | EitherCookiesOrBrowser
  | AvailableFormats
  | DownloadCompleted
  | Banner
  | Separator
  | DownloadCanceled

text \<open>
  The observable trace of a run, in order: \<open>Spawn cmd\<close> for every call of
  \<^verbatim>\<open>subprocess.run\<close> with the tokens \<open>cmd\<close> (whether or not the executable was found),
  and every printed line. \<open>spawned\<close> and \<open>spawn_count\<close> read off these calls.
\<close>

datatype event = Spawn "string list" | Print message

type_synonym world = "event list"

fun is_spawn :: "event \<Rightarrow> bool" where
  "is_spawn (Spawn cmd) = True"
| "is_spawn (Print out) = False"

definition spawned :: "world \<Rightarrow> string list list" where
  "spawned w = concat (map (\<lambda>e. case e of Spawn cmd \<Rightarrow> [cmd] | Print out \<Rightarrow> []) w)"

definition spawn_count :: "world \<Rightarrow> nat" where
  "spawn_count w = length (filter is_spawn w)"

text \<open>
  The processes that were really started: the calls of the trace whose executable was
  found. \<open>started_from procs n w\<close> reads the trace \<open>w\<close> whose first call is the
  \<open>n\<close>-th of the run; \<open>started procs w\<close> reads a whole run.
\<close>

fun started_from :: "procs \<Rightarrow> nat \<Rightarrow> world \<Rightarrow> string list list" where
  "started_from procs n [] = []"
| "started_from procs n (Spawn cmd # w) =
     (case procs n cmd of Exited rc \<Rightarrow> [cmd] | NotFound \<Rightarrow> []) @
     started_from procs (Suc n) w"
| "started_from procs n (Print out # w) = started_from procs n w"

definition started :: "procs \<Rightarrow> world \<Rightarrow> string list list" where
  "started procs w = started_from procs 0 w"

text \<open>
  How a call ends: it returns, it calls \<^verbatim>\<open>sys.exit(n)\<close>, or an exception that
  nothing catches leaves it.
\<close>

datatype exn = FileNotFoundError | IndexError

datatype 'a result = Return 'a | SysExit int | Raise exn

text \<open>
  The exit status of the interpreter when the script's last call ends this way:
  0 after a normal return, \<open>n\<close> after \<^verbatim>\<open>sys.exit(n)\<close>, 1 after an uncaught
  exception.
\<close>

fun exit_status :: "'a result \<Rightarrow> int" where
  "exit_status (Return v) = 0"
| "exit_status (SysExit n) = n"
| "exit_status (Raise e) = 1"

text \<open>\<^verbatim>\<open>subprocess.run(cmd, check=True)\<close>: the spawn is recorded, the world answers.\<close>

definition subprocess_run :: "procs \<Rightarrow> string list \<Rightarrow> world \<Rightarrow> proc_result \<times> world" where
  "subprocess_run procs cmd w = (procs (spawn_count w) cmd, w @ [Spawn cmd])"

definition print_line :: "message \<Rightarrow> world \<Rightarrow> world" where
  "print_line out w = w @ [Print out]"

section \<open>video\_downloader.py: the flag-parsing entry point\<close>

text \<open>
  \<^verbatim>\<open>check_ytdlp_installed\<close> runs \<^verbatim>\<open>yt-dlp --version\<close>; a nonzero return code
  and a missing executable both print two lines and \<^verbatim>\<open>sys.exit(1)\<close>.
\<close>

definition check_ytdlp_installed :: "procs \<Rightarrow> world \<Rightarrow> unit result \<times> world" where
  "check_ytdlp_installed procs w =
     (case subprocess_run procs [''yt-dlp'', ''--version''] w of
        (Exited rc, w1) \<Rightarrow>
          if rc = 0 then (Return (), w1)
          else (SysExit 1, print_line InstallationInstructions (print_line YtdlpNotFound w1))
      | (NotFound, w1) \<Rightarrow>
          (SysExit 1, print_line InstallationInstructions (print_line YtdlpNotFound w1)))"

text \<open>The keyword parameters of \<^verbatim>\<open>VideoDownloader.download\<close>.\<close>

record download_args =
  urls :: "string list"
  format :: "string option"
  audio_only :: bool
  output_template :: "string option"
  subtitles :: bool
  subtitles_lang :: string
  playlist :: bool
  metadata :: bool
  thumbnail :: bool
  sponsorblock :: bool
  cookies :: "string option"
  browser :: "string option"

text \<open>
  The command list of \<^verbatim>\<open>VideoDownloader.download\<close>, one binding of \<open>cmd\<close> for
  each \<^verbatim>\<open>if\<close> statement of the source, in the source's order.
\<close>

definition download_cmd :: "files \<Rightarrow> download_args \<Rightarrow> string list" where
  "download_cmd ex a =
     (let cmd = [''yt-dlp''];
          cmd = (if truthy (cookies a) then
                   (if ex (the (cookies a)) then cmd @ [''--cookies'', the (cookies a)] else cmd)
                 else if truthy (browser a) then cmd @ [''--cookies-from-browser'', the (browser a)]
                 else cmd);
          cmd = (if truthy (format a) then cmd @ [''-f'', the (format a)]
                 else if audio_only a then cmd @ [''--extract-audio'', ''--audio-format'', ''mp3'']
                 else cmd);
          cmd = (if truthy (output_template a) then cmd @ [''-o'', the (output_template a)] else cmd);
          cmd = (if subtitles a then cmd @ [''--write-subs'', ''--sub-langs'', subtitles_lang a] else cmd);
          cmd = (if \<not> playlist a then cmd @ [''--no-playlist''] else cmd);
          cmd = (if metadata a then cmd @ [''--add-metadata''] else cmd);
          cmd = (if thumbnail a then cmd @ [''--embed-thumbnail''] else cmd);
          cmd = (if sponsorblock a then cmd @ [''--sponsorblock-remove''] else cmd)
      in cmd @ urls a)"

text \<open>
  The warning of the cookie branch, printed while the command is built: a path was
  given and no file is there.
\<close>

definition cookies_warning :: "files \<Rightarrow> download_args \<Rightarrow> world \<Rightarrow> world" where
  "cookies_warning ex a w =
     (if truthy (cookies a) \<and> \<not> ex (the (cookies a))
      then print_line (CookiesNotFoundWarning (the (cookies a))) w else w)"

text \<open>
  \<^verbatim>\<open>VideoDownloader.download\<close>: build, run, and on \<^verbatim>\<open>CalledProcessError\<close> print
  and \<^verbatim>\<open>sys.exit(1)\<close>. A \<^verbatim>\<open>FileNotFoundError\<close> is not caught here.
\<close>

definition download :: "files \<Rightarrow> procs \<Rightarrow> download_args \<Rightarrow> world \<Rightarrow> unit result \<times> world" where
  "download ex procs a w =
     (let cmd = download_cmd ex a;
          w1 = cookies_warning ex a w
      in case subprocess_run procs cmd w1 of
           (Exited rc, w2) \<Rightarrow>
             if rc = 0 then (Return (), w2)
             else (SysExit 1, print_line (ErrorDownloadingVideo cmd rc) w2)
         | (NotFound, w2) \<Rightarrow> (Raise FileNotFoundError, w2))"

text \<open>\<^verbatim>\<open>VideoDownloader.get_available_formats\<close>: the error is printed, not raised.\<close>

definition get_available_formats ::
  "procs \<Rightarrow> string \<Rightarrow> string option \<Rightarrow> world \<Rightarrow> unit result \<times> world" where
  "get_available_formats procs url cks w =
     (let cmd = [''yt-dlp'', ''-F'', url];
          cmd = (if truthy cks then cmd @ [''--cookies'', the cks] else cmd)
      in case subprocess_run procs cmd w of
           (Exited rc, w1) \<Rightarrow>
             if rc = 0 then (Return (), w1)
             else (Return (), print_line (ErrorGettingFormats cmd rc) w1)
         | (NotFound, w1) \<Rightarrow> (Raise FileNotFoundError, w1))"

text \<open>
  \<^verbatim>\<open>main\<close> after \<^verbatim>\<open>parse_args\<close>: the parsed namespace has the twelve attributes
  of \<^typ>\<open>download_args\<close> (\<^verbatim>\<open>args.output\<close> is the one passed as
  \<open>output_template\<close>) and each is handed on unchanged. The cookie options are
  validated first, then the constructor checks for yt-dlp, then \<open>download\<close> runs.
\<close>

definition main :: "files \<Rightarrow> procs \<Rightarrow> download_args \<Rightarrow> world \<Rightarrow> unit result \<times> world" where
  "main ex procs args w =
     (if truthy (cookies args) \<and> truthy (browser args)
      then (SysExit 1, print_line EitherCookiesOrBrowser w)
      else case check_ytdlp_installed procs w of
             (Return u, w1) \<Rightarrow> download ex procs args w1
           | (SysExit n, w1) \<Rightarrow> (SysExit n, w1)
           | (Raise e, w1) \<Rightarrow> (Raise e, w1))"

section \<open>app.py: the interactive entry point\<close>

text \<open>
  The object has one attribute, \<^verbatim>\<open>self.cookies_path\<close>. Methods take the object
  and give it back, so that a change of the attribute would show. Where both scripts
  use a name (\<^verbatim>\<open>download\<close>, \<^verbatim>\<open>get_available_formats\<close>), the one of this script
  carries the prefix \<open>interactive_\<close>.
\<close>

record downloader =
  cookies_path :: "string option"

definition cookie_files :: "string list" where
  "cookie_files = [''www.youtube.com_cookies.txt'', ''youtube.com_cookies.txt'', ''cookies.txt'']"

text \<open>The \<^verbatim>\<open>for file in cookie_files\<close> loop of \<^verbatim>\<open>find_cookies_file\<close>.\<close>

fun first_existing :: "files \<Rightarrow> string list \<Rightarrow> string option" where
  "first_existing ex [] = None"
| "first_existing ex (file # rest) = (if ex file then Some file else first_existing ex rest)"

definition find_cookies_file :: "files \<Rightarrow> string option" where
  "find_cookies_file ex = first_existing ex cookie_files"

text \<open>
  \<^verbatim>\<open>__init__\<close>: the same check for yt-dlp as in the other script (its two printed
  lines differ only in a leading symbol), then the search for a cookie file.
\<close>

definition init :: "files \<Rightarrow> procs \<Rightarrow> world \<Rightarrow> downloader result \<times> world" where
  "init ex procs w =
     (case check_ytdlp_installed procs w of
        (Return u, w1) \<Rightarrow> (Return \<lparr>cookies_path = find_cookies_file ex\<rparr>, w1)
      | (SysExit n, w1) \<Rightarrow> (SysExit n, w1)
      | (Raise e, w1) \<Rightarrow> (Raise e, w1))"

text \<open>
  The parameters of \<^verbatim>\<open>InteractiveVideoDownloader.download\<close>. \<open>urls_i\<close> and
  \<open>output_template_i\<close> are the source's \<^verbatim>\<open>urls\<close> and \<^verbatim>\<open>output_template\<close>;
  \<open>extra_options\<close> defaults to \<^verbatim>\<open>None\<close>.
\<close>

record interactive_args =
  urls_i :: "string list"
  download_type :: string
  output_template_i :: string
  extra_options :: "string list option"
  subtitle_langs :: string
  use_cookies :: bool
  browser_cookies :: "string option"

text \<open>
  The command list of \<^verbatim>\<open>InteractiveVideoDownloader.download\<close>. \<open>format_choice\<close>
  is the text typed at the prompt that the \<^verbatim>\<open>custom\<close> branch opens. The extra
  options are looked at only under \<^verbatim>\<open>if extra_options:\<close>, which is false for
  \<^verbatim>\<open>None\<close> and for the empty list.
\<close>

definition interactive_download_cmd :: "downloader \<Rightarrow> interactive_args \<Rightarrow> string \<Rightarrow> string list" where
  "interactive_download_cmd self a format_choice =
     (let cmd = [''yt-dlp''];
          cmd = (if use_cookies a \<and> truthy (cookies_path self)
                 then cmd @ [''--cookies'', the (cookies_path self)]
                 else if truthy (browser_cookies a)
                 then cmd @ [''--cookies-from-browser'', the (browser_cookies a)]
                 else cmd);
          cmd = (if download_type a = ''video''
                 then cmd @ [''-f'', ''bestvideo[ext=mp4]+bestaudio[ext=m4a]/best[ext=mp4]'']
                 else if download_type a = ''audio''
                 then cmd @ [''--extract-audio'', ''--audio-format'', ''mp3'']
                 else if download_type a = ''custom''
                 then cmd @ [''-f'', format_choice]
                 else cmd);
          cmd = (if output_template_i a \<noteq> [] then cmd @ [''-o'', output_template_i a] else cmd);
          cmd = (case extra_options a of
                   None \<Rightarrow> cmd
                 | Some opts \<Rightarrow>
                     if opts = [] then cmd
                     else
                       (let cmd = (if ''subtitles'' \<in> set opts
                                   then cmd @ [''--write-subs'', ''--sub-langs'', subtitle_langs a]
                                   else cmd);
                            cmd = (if ''playlist'' \<notin> set opts then cmd @ [''--no-playlist''] else cmd);
                            cmd = (if ''metadata'' \<in> set opts then cmd @ [''--add-metadata''] else cmd);
                            cmd = (if ''thumbnail'' \<in> set opts then cmd @ [''--embed-thumbnail''] else cmd);
                            cmd = (if ''sponsorblock'' \<in> set opts
                                   then cmd @ [''--sponsorblock-remove'']
                                   else cmd)
                        in cmd))
      in cmd @ urls_i a)"

text \<open>
  \<^verbatim>\<open>InteractiveVideoDownloader.download\<close>: build, run, print the outcome; on
  \<^verbatim>\<open>CalledProcessError\<close> \<^verbatim>\<open>sys.exit(1)\<close>.
\<close>

definition interactive_download ::
  "procs \<Rightarrow> downloader \<Rightarrow> interactive_args \<Rightarrow> string \<Rightarrow> world
     \<Rightarrow> unit result \<times> downloader \<times> world" where
  "interactive_download procs self a format_choice w =
     (let cmd = interactive_download_cmd self a format_choice
      in case subprocess_run procs cmd w of
           (Exited rc, w1) \<Rightarrow>
             if rc = 0 then (Return (), self, print_line DownloadCompleted w1)
             else (SysExit 1, self, print_line (ErrorDownloadingVideo cmd rc) w1)
         | (NotFound, w1) \<Rightarrow> (Raise FileNotFoundError, self, w1))"

text \<open>\<^verbatim>\<open>InteractiveVideoDownloader.get_available_formats\<close>.\<close>

definition interactive_formats_cmd :: "downloader \<Rightarrow> string \<Rightarrow> bool \<Rightarrow> string list" where
  "interactive_formats_cmd self url use_cks =
     (let cmd = [''yt-dlp'', ''-F'', url]
      in if use_cks \<and> truthy (cookies_path self)
         then cmd @ [''--cookies'', the (cookies_path self)] else cmd)"

definition interactive_get_available_formats ::
  "procs \<Rightarrow> downloader \<Rightarrow> string \<Rightarrow> bool \<Rightarrow> world \<Rightarrow> unit result \<times> downloader \<times> world" where
  "interactive_get_available_formats procs self url use_cks w =
     (let cmd = interactive_formats_cmd self url use_cks;
          w1 = print_line AvailableFormats w
      in case subprocess_run procs cmd w1 of
           (Exited rc, w2) \<Rightarrow>
             if rc = 0 then (Return (), self, w2)
             else (Return (), self, print_line (ErrorGettingFormats cmd rc) w2)
         | (NotFound, w2) \<Rightarrow> (Raise FileNotFoundError, self, w2))"

text \<open>
  What the user enters at the prompts of \<^verbatim>\<open>run_interactive\<close>, one field for each
  place where a prompt can be asked; every prompt is taken to be answered (the user
  does not interrupt). \<open>ans_urls\<close> is the line typed at the first prompt after
  \<^verbatim>\<open>split()\<close>.
\<close>

record answers =
  ans_urls :: "string list"
  ans_download_type :: string
  ans_list_use_cookies :: bool
  ans_download_type_again :: string
  ans_use_cookies :: bool
  ans_browser_instead :: bool
  ans_browser :: string
  ans_output_template :: string
  ans_extra_options :: "string list"
  ans_subtitle_languages :: string
  ans_start :: bool
  ans_format_choice :: string

text \<open>\<^verbatim>\<open>prompt_use_cookies\<close> asks only when a cookie file was found.\<close>

definition prompt_use_cookies :: "downloader \<Rightarrow> bool \<Rightarrow> bool" where
  "prompt_use_cookies self answer = (if \<not> truthy (cookies_path self) then False else answer)"

text \<open>
  The steps of \<^verbatim>\<open>run_interactive\<close> after the download type is settled:
  authentication, output template, extra options, confirmation, download.
\<close>

definition run_from_authentication ::
  "procs \<Rightarrow> downloader \<Rightarrow> answers \<Rightarrow> string \<Rightarrow> world \<Rightarrow> unit result \<times> downloader \<times> world" where
  "run_from_authentication procs self ans dtype w =
     (let use_cks = prompt_use_cookies self (ans_use_cookies ans);
          browser_cks = (if \<not> use_cks \<or> \<not> truthy (cookies_path self)
                         then (if ans_browser_instead ans then Some (ans_browser ans) else None)
                         else None);
          sub_langs = (if ''subtitles'' \<in> set (ans_extra_options ans)
                       then ans_subtitle_languages ans else ''en'');
          w1 = print_line Separator w
      in if ans_start ans
         then interactive_download procs self
                \<lparr>urls_i = ans_urls ans, download_type = dtype,
                 output_template_i = ans_output_template ans,
                 extra_options = Some (ans_extra_options ans),
                 subtitle_langs = sub_langs, use_cookies = use_cks,
                 browser_cookies = browser_cks\<rparr>
                (ans_format_choice ans) w1
         else (Return (), self, print_line DownloadCanceled w1))"

text \<open>
  The arguments that \<open>run_from_authentication\<close> hands to \<open>download\<close>, under a name of
  their own (\<open>run_from_authentication_eq\<close> below).
\<close>

definition answers_args :: "downloader \<Rightarrow> answers \<Rightarrow> string \<Rightarrow> interactive_args" where
  "answers_args self ans dtype =
     \<lparr>urls_i = ans_urls ans, download_type = dtype,
      output_template_i = ans_output_template ans,
      extra_options = Some (ans_extra_options ans),
      subtitle_langs =
        (if ''subtitles'' \<in> set (ans_extra_options ans)
         then ans_subtitle_languages ans else ''en''),
      use_cookies = prompt_use_cookies self (ans_use_cookies ans),
      browser_cookies =
        (if \<not> prompt_use_cookies self (ans_use_cookies ans) \<or> \<not> truthy (cookies_path self)
         then (if ans_browser_instead ans then Some (ans_browser ans) else None)
         else None)\<rparr>"

text \<open>
  \<^verbatim>\<open>run_interactive\<close>. Choosing \<^verbatim>\<open>list\<close> shows the formats of \<^verbatim>\<open>urls[0]\<close>
  (an \<^verbatim>\<open>IndexError\<close> when there is no URL) and asks for the type again.
\<close>

definition run_interactive ::
  "procs \<Rightarrow> downloader \<Rightarrow> answers \<Rightarrow> world \<Rightarrow> unit result \<times> downloader \<times> world" where
  "run_interactive procs self ans w =
     (let w1 = print_line Banner w
      in if ans_download_type ans = ''list''
         then (case ans_urls ans of
                 [] \<Rightarrow> (Raise IndexError, self, w1)
               | url # rest \<Rightarrow>
                   (case interactive_get_available_formats procs self url
                           (prompt_use_cookies self (ans_list_use_cookies ans)) w1 of
                      (Return u, self1, w2) \<Rightarrow>
                        run_from_authentication procs self1 ans (ans_download_type_again ans) w2
                    | (SysExit n, self1, w2) \<Rightarrow> (SysExit n, self1, w2)
                    | (Raise e, self1, w2) \<Rightarrow> (Raise e, self1, w2)))
         else run_from_authentication procs self ans (ans_download_type ans) w1)"

text \<open>The script: construct the object, then run the dialogue.\<close>

definition interactive_main :: "files \<Rightarrow> procs \<Rightarrow> answers \<Rightarrow> world \<Rightarrow> unit result \<times> world" where
  "interactive_main ex procs ans w =
     (case init ex procs w of
        (Return self, w1) \<Rightarrow>
          (case run_interactive procs self ans w1 of (r, self1, w2) \<Rightarrow> (r, w2))
      | (SysExit n, w1) \<Rightarrow> (SysExit n, w1)
      | (Raise e, w1) \<Rightarrow> (Raise e, w1))"

section \<open>The sections of the command\<close>

text \<open>
  The source builds the command section by section (cookie handling, format
  selection, output template, subtitles, playlist, the embedding switches, the
  URLs). These name what each section appends; \<open>download_cmd_parts\<close> below shows that
  the command is their concatenation.
\<close>

definition cookie_args :: "files \<Rightarrow> download_args \<Rightarrow> string list" where
  "cookie_args ex a =
     (if truthy (cookies a)
      then (if ex (the (cookies a)) then [''--cookies'', the (cookies a)] else [])
      else if truthy (browser a) then [''--cookies-from-browser'', the (browser a)]
      else [])"

definition format_args :: "download_args \<Rightarrow> string list" where
  "format_args a =
     (if truthy (format a) then [''-f'', the (format a)]
      else if audio_only a then [''--extract-audio'', ''--audio-format'', ''mp3'']
      else [])"

definition output_args :: "download_args \<Rightarrow> string list" where
  "output_args a = (if truthy (output_template a) then [''-o'', the (output_template a)] else [])"

definition subtitle_args :: "download_args \<Rightarrow> string list" where
  "subtitle_args a =
     (if subtitles a then [''--write-subs'', ''--sub-langs'', subtitles_lang a] else [])"

definition playlist_args :: "download_args \<Rightarrow> string list" where
  "playlist_args a = (if \<not> playlist a then [''--no-playlist''] else [])"

definition embed_args :: "download_args \<Rightarrow> string list" where
  "embed_args a =
     (if metadata a then [''--add-metadata''] else []) @
     (if thumbnail a then [''--embed-thumbnail''] else []) @
     (if sponsorblock a then [''--sponsorblock-remove''] else [])"

text \<open>
  The strings that the caller of \<open>download\<close> supplies and that the builder may copy
  into the command as they are.
\<close>

definition supplied :: "download_args \<Rightarrow> string set" where
  "supplied a =
     set_option (cookies a) \<union> set_option (browser a) \<union> set_option (format a) \<union>
     set_option (output_template a) \<union> {subtitles_lang a} \<union> set (urls a)"

text \<open>The same for the interactive script.\<close>

definition options_given :: "interactive_args \<Rightarrow> bool" where
  "options_given a = (case extra_options a of None \<Rightarrow> False | Some opts \<Rightarrow> opts \<noteq> [])"

definition selected :: "interactive_args \<Rightarrow> string \<Rightarrow> bool" where
  "selected a opt = (case extra_options a of None \<Rightarrow> False | Some opts \<Rightarrow> opt \<in> set opts)"

definition interactive_cookie_args :: "downloader \<Rightarrow> interactive_args \<Rightarrow> string list" where
  "interactive_cookie_args self a =
     (if use_cookies a \<and> truthy (cookies_path self) then [''--cookies'', the (cookies_path self)]
      else if truthy (browser_cookies a) then [''--cookies-from-browser'', the (browser_cookies a)]
      else [])"

definition interactive_format_args :: "interactive_args \<Rightarrow> string \<Rightarrow> string list" where
  "interactive_format_args a format_choice =
     (if download_type a = ''video''
      then [''-f'', ''bestvideo[ext=mp4]+bestaudio[ext=m4a]/best[ext=mp4]'']
      else if download_type a = ''audio'' then [''--extract-audio'', ''--audio-format'', ''mp3'']
      else if download_type a = ''custom'' then [''-f'', format_choice]
      else [])"

definition interactive_output_args :: "interactive_args \<Rightarrow> string list" where
  "interactive_output_args a =
     (if output_template_i a \<noteq> [] then [''-o'', output_template_i a] else [])"

definition interactive_subtitle_args :: "interactive_args \<Rightarrow> string list" where
  "interactive_subtitle_args a =
     (if options_given a \<and> selected a ''subtitles''
      then [''--write-subs'', ''--sub-langs'', subtitle_langs a] else [])"

definition interactive_playlist_args :: "interactive_args \<Rightarrow> string list" where
  "interactive_playlist_args a =
     (if options_given a \<and> \<not> selected a ''playlist'' then [''--no-playlist''] else [])"

definition interactive_embed_args :: "interactive_args \<Rightarrow> string list" where
  "interactive_embed_args a =
     (if options_given a \<and> selected a ''metadata'' then [''--add-metadata''] else []) @
     (if options_given a \<and> selected a ''thumbnail'' then [''--embed-thumbnail''] else []) @
     (if options_given a \<and> selected a ''sponsorblock'' then [''--sponsorblock-remove''] else [])"

definition interactive_supplied :: "downloader \<Rightarrow> interactive_args \<Rightarrow> string \<Rightarrow> string set" where
  "interactive_supplied self a format_choice =
     set_option (cookies_path self) \<union> set_option (browser_cookies a) \<union>
     {format_choice, output_template_i a, subtitle_langs a} \<union> set (urls_i a)"

section \<open>Concrete environments and arguments\<close>

text \<open>A directory without cookie files, and one that holds just the file \<open>f\<close>.\<close>

definition no_files :: files where
  "no_files p = False"

definition only_file :: "string \<Rightarrow> files" where
  "only_file f p = (p = f)"

text \<open>
  An installed yt-dlp: \<^verbatim>\<open>yt-dlp --version\<close> succeeds, every other command ends with
  return code \<open>rc\<close>.
\<close>

definition procs_exit :: "int \<Rightarrow> procs" where
  "procs_exit rc n cmd = (if cmd = [''yt-dlp'', ''--version''] then Exited 0 else Exited rc)"

text \<open>No yt-dlp at all: every call ends in \<^verbatim>\<open>FileNotFoundError\<close>.\<close>

definition procs_missing :: procs where
  "procs_missing n cmd = NotFound"

text \<open>One URL and the defaults of the argument parser.\<close>

definition plain_args :: download_args where
  "plain_args =
     \<lparr>urls = [''https://example.org/v''], format = None, audio_only = False,
      output_template = None, subtitles = False, subtitles_lang = ''en'', playlist = False,
      metadata = False, thumbnail = False, sponsorblock = False, cookies = None,
      browser = None\<rparr>"

text \<open>One URL, the video type, the default template, and no extra option ticked.\<close>

definition plain_interactive_args :: interactive_args where
  "plain_interactive_args =
     \<lparr>urls_i = [''https://example.org/v''], download_type = ''video'',
      output_template_i = ''%(title)s.%(ext)s'', extra_options = Some [],
      subtitle_langs = ''en'', use_cookies = False, browser_cookies = None\<rparr>"

definition plain_answers :: answers where
  "plain_answers =
     \<lparr>ans_urls = [''https://example.org/v''], ans_download_type = ''video'',
      ans_list_use_cookies = False, ans_download_type_again = ''video'',
      ans_use_cookies = False, ans_browser_instead = False, ans_browser = ''firefox'',
      ans_output_template = ''%(title)s.%(ext)s'', ans_extra_options = [],
      ans_subtitle_languages = ''en'', ans_start = True,
      ans_format_choice = ''bestvideo+bestaudio''\<rparr>"

text \<open>An object that found no cookie file, and one that found \<^verbatim>\<open>cookies.txt\<close>.\<close>

definition no_cookies :: downloader where
  "no_cookies = \<lparr>cookies_path = None\<rparr>"

definition found_cookies :: downloader where
  "found_cookies = \<lparr>cookies_path = Some ''cookies.txt''\<rparr>"

section \<open>Basic facts\<close>

lemma truthy_iff: "truthy s \<longleftrightarrow> (\<exists>t. s = Some t \<and> t \<noteq> [])"
  by (cases s) (simp_all add: truthy_def)

lemmas part_defs = cookie_args_def format_args_def output_args_def subtitle_args_def
  playlist_args_def embed_args_def

lemmas interactive_seg_defs = interactive_cookie_args_def interactive_format_args_def
  interactive_output_args_def interactive_subtitle_args_def interactive_playlist_args_def
  interactive_embed_args_def

lemmas interactive_part_defs = interactive_seg_defs options_given_def selected_def

lemma if_append_left: "(if c then xs @ ys else xs) = xs @ (if c then ys else [])"
  by simp

lemma if_append_both: "(if c then xs @ ys else xs @ zs) = xs @ (if c then ys else zs)"
  by simp

lemma download_cmd_parts:
  "download_cmd ex a =
     ''yt-dlp'' # cookie_args ex a @ format_args a @ output_args a @ subtitle_args a @
       playlist_args a @ embed_args a @ urls a"
  apply (simp only: download_cmd_def if_append_left if_append_both)
  apply (simp add: Let_def part_defs split del: if_split)
  done

lemma interactive_download_cmd_parts:
  "interactive_download_cmd self a format_choice =
     ''yt-dlp'' # interactive_cookie_args self a @ interactive_format_args a format_choice @
       interactive_output_args a @ interactive_subtitle_args a @ interactive_playlist_args a @
       interactive_embed_args a @ urls_i a"
proof (cases "extra_options a")
  case None
  show ?thesis
    apply (simp only: interactive_download_cmd_def None option.case if_append_left if_append_both)
    apply (simp add: Let_def interactive_part_defs None split del: if_split)
    done
next
  case (Some opts)
  show ?thesis
  proof (cases "opts = []")
    case True
    show ?thesis
      apply (simp only: interactive_download_cmd_def Some option.case True if_True
          if_append_left if_append_both)
      apply (simp add: Let_def interactive_part_defs Some True split del: if_split)
      done
  next
    case False
    show ?thesis
      apply (simp only: interactive_download_cmd_def Some option.case False if_False
          if_append_left if_append_both)
      apply (simp add: Let_def interactive_part_defs Some False split del: if_split)
      done
  qed
qed

lemma spawn_count_append [simp]: "spawn_count (w @ v) = spawn_count w + spawn_count v"
  by (simp add: spawn_count_def)

lemma spawn_count_print_line [simp]: "spawn_count (print_line out w) = spawn_count w"
  by (simp add: spawn_count_def print_line_def)

lemma spawned_append [simp]: "spawned (w @ v) = spawned w @ spawned v"
  by (simp add: spawned_def)

lemma spawned_print_line [simp]: "spawned (print_line out w) = spawned w"
  by (simp add: spawned_def print_line_def)

lemma spawn_count_Cons [simp]:
  "spawn_count (Spawn cmd # w) = Suc (spawn_count w)"
  "spawn_count (Print out # w) = spawn_count w"
  "spawn_count [] = 0"
  by (simp_all add: spawn_count_def)

lemma spawned_Cons [simp]:
  "spawned (Spawn cmd # w) = cmd # spawned w"
  "spawned (Print out # w) = spawned w"
  "spawned [] = []"
  by (simp_all add: spawned_def)

lemma spawn_count_cookies_warning [simp]: "spawn_count (cookies_warning ex a w) = spawn_count w"
  by (simp add: cookies_warning_def)

lemma spawned_cookies_warning [simp]: "spawned (cookies_warning ex a w) = spawned w"
  by (simp add: cookies_warning_def)

text \<open>What each call gives and what it adds to the trace, in closed form.\<close>

lemma fst_download:
  "fst (download ex procs a w) =
     (case procs (spawn_count w) (download_cmd ex a) of
        Exited rc \<Rightarrow> if rc = 0 then Return () else SysExit 1
      | NotFound \<Rightarrow> Raise FileNotFoundError)"
  by (simp add: download_def Let_def subprocess_run_def split: proc_result.split)

lemma snd_download:
  "snd (download ex procs a w) =
     cookies_warning ex a w @ Spawn (download_cmd ex a) #
       (case procs (spawn_count w) (download_cmd ex a) of
          Exited rc \<Rightarrow>
            if rc = 0 then [] else [Print (ErrorDownloadingVideo (download_cmd ex a) rc)]
        | NotFound \<Rightarrow> [])"
  by (simp add: download_def Let_def subprocess_run_def print_line_def split: proc_result.split)

lemma interactive_download_eq:
  "interactive_download procs self a format_choice w =
     (case procs (spawn_count w) (interactive_download_cmd self a format_choice) of
        Exited rc \<Rightarrow> if rc = 0 then Return () else SysExit 1
      | NotFound \<Rightarrow> Raise FileNotFoundError,
      self,
      w @ Spawn (interactive_download_cmd self a format_choice) #
        (case procs (spawn_count w) (interactive_download_cmd self a format_choice) of
           Exited rc \<Rightarrow>
             if rc = 0 then [Print DownloadCompleted]
             else [Print (ErrorDownloadingVideo (interactive_download_cmd self a format_choice) rc)]
         | NotFound \<Rightarrow> []))"
  by (simp add: interactive_download_def Let_def subprocess_run_def print_line_def
      split: proc_result.split)

lemma interactive_get_available_formats_eq:
  "interactive_get_available_formats procs self url use_cks w =
     (case procs (spawn_count w) (interactive_formats_cmd self url use_cks) of
        Exited rc \<Rightarrow> Return ()
      | NotFound \<Rightarrow> Raise FileNotFoundError,
      self,
      w @ Print AvailableFormats # Spawn (interactive_formats_cmd self url use_cks) #
        (case procs (spawn_count w) (interactive_formats_cmd self url use_cks) of
           Exited rc \<Rightarrow>
             if rc = 0 then []
             else [Print (ErrorGettingFormats (interactive_formats_cmd self url use_cks) rc)]
         | NotFound \<Rightarrow> []))"
  by (simp add: interactive_get_available_formats_def Let_def subprocess_run_def print_line_def
      split: proc_result.split)

lemma selected_options_given: "selected a opt \<Longrightarrow> options_given a"
  by (auto simp: selected_def options_given_def split: option.splits)

section \<open>Cookie-file discovery\<close>

lemma first_existing_None: "first_existing ex fs = None \<longleftrightarrow> (\<forall>f \<in> set fs. \<not> ex f)"
  by (induction fs) auto

lemma first_existing_Some:
  "first_existing ex fs = Some f \<longleftrightarrow>
     (\<exists>pre post. fs = pre @ f # post \<and> ex f \<and> (\<forall>g \<in> set pre. \<not> ex g))"
proof (induction fs)
  case Nil
  then show ?case by simp
next
  case (Cons x xs)
  show ?case
  proof (cases "ex x")
    case True
    have "(\<exists>pre post. x # xs = pre @ f # post \<and> ex f \<and> (\<forall>g \<in> set pre. \<not> ex g)) \<longleftrightarrow> x = f"
    proof
      assume "\<exists>pre post. x # xs = pre @ f # post \<and> ex f \<and> (\<forall>g \<in> set pre. \<not> ex g)"
      then obtain pre post where eq: "x # xs = pre @ f # post" and no: "\<forall>g \<in> set pre. \<not> ex g"
        by blast
      show "x = f"
      proof (cases pre)
        case Nil
        with eq show ?thesis by simp
      next
        case (Cons p ps)
        with eq have "p = x" by simp
        with Cons no True show ?thesis by simp
      qed
    next
      assume "x = f"
      with True have "x # xs = [] @ f # xs \<and> ex f \<and> (\<forall>g \<in> set []. \<not> ex g)" by simp
      then show "\<exists>pre post. x # xs = pre @ f # post \<and> ex f \<and> (\<forall>g \<in> set pre. \<not> ex g)"
        by blast
    qed
    with True show ?thesis by simp
  next
    case False
    have "(\<exists>pre post. x # xs = pre @ f # post \<and> ex f \<and> (\<forall>g \<in> set pre. \<not> ex g)) \<longleftrightarrow>
          (\<exists>pre post. xs = pre @ f # post \<and> ex f \<and> (\<forall>g \<in> set pre. \<not> ex g))"
    proof
      assume "\<exists>pre post. x # xs = pre @ f # post \<and> ex f \<and> (\<forall>g \<in> set pre. \<not> ex g)"
      then obtain pre post where eq: "x # xs = pre @ f # post" and exf: "ex f"
        and no: "\<forall>g \<in> set pre. \<not> ex g"
        by blast
      show "\<exists>pre post. xs = pre @ f # post \<and> ex f \<and> (\<forall>g \<in> set pre. \<not> ex g)"
      proof (cases pre)
        case Nil
        with eq exf False show ?thesis by simp
      next
        case (Cons p ps)
        with eq no exf have "xs = ps @ f # post \<and> ex f \<and> (\<forall>g \<in> set ps. \<not> ex g)" by simp
        then show ?thesis by blast
      qed
    next
      assume "\<exists>pre post. xs = pre @ f # post \<and> ex f \<and> (\<forall>g \<in> set pre. \<not> ex g)"
      then obtain pre post where "xs = pre @ f # post" and "ex f" and "\<forall>g \<in> set pre. \<not> ex g"
        by blast
      with False have "x # xs = (x # pre) @ f # post \<and> ex f \<and> (\<forall>g \<in> set (x # pre). \<not> ex g)"
        by simp
      then show "\<exists>pre post. x # xs = pre @ f # post \<and> ex f \<and> (\<forall>g \<in> set pre. \<not> ex g)"
        by blast
    qed
    with False Cons.IH show ?thesis by simp
  qed
qed

text \<open>
  C5. \<^verbatim>\<open>find_cookies_file\<close> looks at the three names
  \<^verbatim>\<open>www.youtube.com_cookies.txt\<close>, \<^verbatim>\<open>youtube.com_cookies.txt\<close>, \<^verbatim>\<open>cookies.txt\<close> in
  this order. It returns \<^verbatim>\<open>None\<close> exactly when none of them exists, and it returns
  \<open>f\<close> exactly when \<open>f\<close> is a candidate that exists and no candidate before it does.
\<close>

theorem find_cookies_file_first_existing:
  "cookie_files = [''www.youtube.com_cookies.txt'', ''youtube.com_cookies.txt'', ''cookies.txt''] \<and>
   (find_cookies_file ex = None \<longleftrightarrow> (\<forall>f \<in> set cookie_files. \<not> ex f)) \<and>
   (find_cookies_file ex = Some f \<longleftrightarrow>
      (\<exists>pre post. cookie_files = pre @ f # post \<and> ex f \<and> (\<forall>g \<in> set pre. \<not> ex g)))"
  unfolding find_cookies_file_def
  using first_existing_None [of ex cookie_files] first_existing_Some [of ex cookie_files f]
  by (simp add: cookie_files_def)

theorem find_cookies_file_first_existing_witness:
  "find_cookies_file (only_file ''cookies.txt'') = Some ''cookies.txt'' \<and>
   find_cookies_file no_files = None"
proof -
  have "cookie_files = [''www.youtube.com_cookies.txt'', ''youtube.com_cookies.txt''] @ ''cookies.txt'' # [] \<and>
        only_file ''cookies.txt'' ''cookies.txt'' \<and>
        (\<forall>g \<in> set [''www.youtube.com_cookies.txt'', ''youtube.com_cookies.txt''].
           \<not> only_file ''cookies.txt'' g)"
    by (simp add: cookie_files_def only_file_def)
  then have "\<exists>pre post. cookie_files = pre @ ''cookies.txt'' # post \<and>
        only_file ''cookies.txt'' ''cookies.txt'' \<and> (\<forall>g \<in> set pre. \<not> only_file ''cookies.txt'' g)"
    by blast
  then have some: "find_cookies_file (only_file ''cookies.txt'') = Some ''cookies.txt''"
    using find_cookies_file_first_existing [of "only_file ''cookies.txt''" "''cookies.txt''"]
    by blast
  have "\<forall>f \<in> set cookie_files. \<not> no_files f"
    by (simp add: no_files_def)
  then have "find_cookies_file no_files = None"
    using find_cookies_file_first_existing [of no_files "''cookies.txt''"] by blast
  with some show ?thesis by simp
qed

section \<open>Evaluating the concrete inputs\<close>

lemma procs_exit_other:
  "cmd \<noteq> [''yt-dlp'', ''--version''] \<Longrightarrow> procs_exit rc n cmd = Exited rc"
  by (simp add: procs_exit_def)

lemma procs_exit_version: "procs_exit rc n [''yt-dlp'', ''--version''] = Exited 0"
  by (simp add: procs_exit_def)

lemma download_cmd_plain_args:
  "download_cmd ex plain_args = [''yt-dlp'', ''--no-playlist'', ''https://example.org/v'']"
  by (simp add: download_cmd_def Let_def plain_args_def truthy_def)

lemma interactive_download_cmd_plain:
  "interactive_download_cmd no_cookies plain_interactive_args format_choice =
     [''yt-dlp'', ''-f'', ''bestvideo[ext=mp4]+bestaudio[ext=m4a]/best[ext=mp4]'',
      ''-o'', ''%(title)s.%(ext)s'', ''https://example.org/v'']"
  by (simp add: interactive_download_cmd_def Let_def plain_interactive_args_def no_cookies_def
      truthy_def)

lemma check_ytdlp_installed_procs_exit:
  "check_ytdlp_installed (procs_exit rc) w = (Return (), w @ [Spawn [''yt-dlp'', ''--version'']])"
  by (simp add: check_ytdlp_installed_def subprocess_run_def procs_exit_version)

lemma plain_args_cookies [simp]: "\<not> truthy (cookies plain_args)"
  by (simp add: plain_args_def truthy_def)

section \<open>Format against audio only\<close>

text \<open>
  C10, as the claim states it, fails. An empty format string given together with
  \<open>audio_only\<close> is false for Python, so the audio branch is taken: no \<^verbatim>\<open>-f\<close>, and
  \<^verbatim>\<open>--extract-audio\<close> is there. And with a proper format string, a URL that is itself
  \<^verbatim>\<open>--extract-audio\<close> is copied into the command.
\<close>

theorem format_over_audio_only_counterexample:
  "format (plain_args\<lparr>format := Some [], audio_only := True\<rparr>) = Some [] \<and>
   audio_only (plain_args\<lparr>format := Some [], audio_only := True\<rparr>) \<and>
   ''-f'' \<notin> set (download_cmd no_files (plain_args\<lparr>format := Some [], audio_only := True\<rparr>)) \<and>
   ''--extract-audio'' \<in>
     set (download_cmd no_files (plain_args\<lparr>format := Some [], audio_only := True\<rparr>)) \<and>
   format (plain_args\<lparr>format := Some ''best'', audio_only := True, urls := [''--extract-audio'']\<rparr>) =
     Some ''best'' \<and>
   audio_only
     (plain_args\<lparr>format := Some ''best'', audio_only := True, urls := [''--extract-audio'']\<rparr>) \<and>
   ''--extract-audio'' \<in>
     set (download_cmd no_files
            (plain_args\<lparr>format := Some ''best'', audio_only := True,
                         urls := [''--extract-audio'']\<rparr>))"
  by (simp add: download_cmd_def Let_def plain_args_def truthy_def)

text \<open>
  C10, amended. In the flag-parsing script, when a non-empty format string and
  \<open>audio_only\<close> are both given, the command contains \<^verbatim>\<open>-f\<close> followed by the format
  string as its format selection, and it contains neither \<^verbatim>\<open>--extract-audio\<close> nor
  \<^verbatim>\<open>--audio-format\<close> unless one of the strings supplied by the caller is itself that
  token.
\<close>

theorem format_over_audio_only:
  "truthy (format a) \<and> audio_only a \<longrightarrow>
     download_cmd ex a =
       (''yt-dlp'' # cookie_args ex a) @ [''-f'', the (format a)] @
       (output_args a @ subtitle_args a @ playlist_args a @ embed_args a @ urls a) \<and>
     (''--extract-audio'' \<notin> supplied a \<longrightarrow> ''--extract-audio'' \<notin> set (download_cmd ex a)) \<and>
     (''--audio-format'' \<notin> supplied a \<longrightarrow> ''--audio-format'' \<notin> set (download_cmd ex a))"
proof -
  have 1: "truthy (format a) \<longrightarrow>
      download_cmd ex a =
        (''yt-dlp'' # cookie_args ex a) @ [''-f'', the (format a)] @
        (output_args a @ subtitle_args a @ playlist_args a @ embed_args a @ urls a)"
    by (simp add: download_cmd_parts format_args_def)
  have 2: "truthy (format a) \<longrightarrow> ''--extract-audio'' \<notin> supplied a \<longrightarrow>
      ''--extract-audio'' \<notin> set (download_cmd ex a)"
    unfolding download_cmd_parts
    by (auto simp: part_defs supplied_def truthy_iff split: if_splits)
  have 3: "truthy (format a) \<longrightarrow> ''--audio-format'' \<notin> supplied a \<longrightarrow>
      ''--audio-format'' \<notin> set (download_cmd ex a)"
    unfolding download_cmd_parts
    by (auto simp: part_defs supplied_def truthy_iff split: if_splits)
  from 1 2 3 show ?thesis by blast
qed

theorem format_over_audio_only_witness:
  "truthy (format (plain_args\<lparr>format := Some ''best'', audio_only := True\<rparr>)) \<and>
   audio_only (plain_args\<lparr>format := Some ''best'', audio_only := True\<rparr>) \<and>
   ''--extract-audio'' \<notin> supplied (plain_args\<lparr>format := Some ''best'', audio_only := True\<rparr>) \<and>
   ''--audio-format'' \<notin> supplied (plain_args\<lparr>format := Some ''best'', audio_only := True\<rparr>) \<and>
   download_cmd no_files (plain_args\<lparr>format := Some ''best'', audio_only := True\<rparr>) =
     [''yt-dlp'', ''-f'', ''best'', ''--no-playlist'', ''https://example.org/v''] \<and>
   ''--extract-audio'' \<notin>
     set (download_cmd no_files (plain_args\<lparr>format := Some ''best'', audio_only := True\<rparr>)) \<and>
   ''--audio-format'' \<notin>
     set (download_cmd no_files (plain_args\<lparr>format := Some ''best'', audio_only := True\<rparr>))"
proof -
  have h1: "truthy (format (plain_args\<lparr>format := Some ''best'', audio_only := True\<rparr>)) \<and>
      audio_only (plain_args\<lparr>format := Some ''best'', audio_only := True\<rparr>)"
    and h2: "''--extract-audio'' \<notin>
      supplied (plain_args\<lparr>format := Some ''best'', audio_only := True\<rparr>)"
    and h3: "''--audio-format'' \<notin>
      supplied (plain_args\<lparr>format := Some ''best'', audio_only := True\<rparr>)"
    by (simp_all add: plain_args_def supplied_def truthy_def)
  note inst = format_over_audio_only
    [where a = "plain_args\<lparr>format := Some ''best'', audio_only := True\<rparr>" and ex = no_files]
  have "download_cmd no_files (plain_args\<lparr>format := Some ''best'', audio_only := True\<rparr>) =
      (''yt-dlp'' # cookie_args no_files (plain_args\<lparr>format := Some ''best'', audio_only := True\<rparr>)) @
      [''-f'', the (format (plain_args\<lparr>format := Some ''best'', audio_only := True\<rparr>))] @
      (output_args (plain_args\<lparr>format := Some ''best'', audio_only := True\<rparr>) @
       subtitle_args (plain_args\<lparr>format := Some ''best'', audio_only := True\<rparr>) @
       playlist_args (plain_args\<lparr>format := Some ''best'', audio_only := True\<rparr>) @
       embed_args (plain_args\<lparr>format := Some ''best'', audio_only := True\<rparr>) @
       urls (plain_args\<lparr>format := Some ''best'', audio_only := True\<rparr>))"
    using h1 inst by blast
  then have c1: "download_cmd no_files (plain_args\<lparr>format := Some ''best'', audio_only := True\<rparr>) =
     [''yt-dlp'', ''-f'', ''best'', ''--no-playlist'', ''https://example.org/v'']"
    by (simp add: part_defs plain_args_def truthy_def)
  have c2: "''--extract-audio'' \<notin>
     set (download_cmd no_files (plain_args\<lparr>format := Some ''best'', audio_only := True\<rparr>))"
    and c3: "''--audio-format'' \<notin>
     set (download_cmd no_files (plain_args\<lparr>format := Some ''best'', audio_only := True\<rparr>))"
    using h1 h2 h3 inst by blast+
  from h1 h2 h3 c1 c2 c3 show ?thesis by blast
qed

section \<open>One cookie source\<close>

text \<open>
  C8, as the claim states it, fails. With an existing cookie file, a URL that is itself
  \<^verbatim>\<open>--cookies-from-browser\<close> is copied into the command, which then holds both
  tokens. And \<^verbatim>\<open>--cookies\<close> given as the empty string together with \<^verbatim>\<open>--browser\<close>
  passes the validation of \<open>main\<close>: there is no error exit, and the download runs with
  the browser's cookies.
\<close>

theorem one_cookie_source_counterexample:
  "''--cookies'' \<in>
     set (download_cmd (only_file ''cookies.txt'')
            (plain_args\<lparr>cookies := Some ''cookies.txt'', urls := [''--cookies-from-browser'']\<rparr>)) \<and>
   ''--cookies-from-browser'' \<in>
     set (download_cmd (only_file ''cookies.txt'')
            (plain_args\<lparr>cookies := Some ''cookies.txt'', urls := [''--cookies-from-browser'']\<rparr>)) \<and>
   cookies (plain_args\<lparr>cookies := Some [], browser := Some ''firefox''\<rparr>) = Some [] \<and>
   browser (plain_args\<lparr>cookies := Some [], browser := Some ''firefox''\<rparr>) = Some ''firefox'' \<and>
   main no_files (procs_exit 0) (plain_args\<lparr>cookies := Some [], browser := Some ''firefox''\<rparr>) [] =
     (Return (),
      [Spawn [''yt-dlp'', ''--version''],
       Spawn [''yt-dlp'', ''--cookies-from-browser'', ''firefox'', ''--no-playlist'',
              ''https://example.org/v'']])"
  by (simp add: main_def check_ytdlp_installed_procs_exit download_def subprocess_run_def
      cookies_warning_def procs_exit_def download_cmd_def Let_def plain_args_def truthy_def
      only_file_def)

text \<open>
  C8, amended. In either script the command does not contain both \<^verbatim>\<open>--cookies\<close> and
  \<^verbatim>\<open>--cookies-from-browser\<close> unless one of the strings supplied by the caller is
  itself one of the two. In the interactive script a cookie file that was found and
  accepted takes precedence: the cookie section is \<^verbatim>\<open>--cookies\<close> with its path and the
  browser choice has no effect on the command. In the flag-parsing script, cookies and
  browser both given as non-empty strings end \<open>main\<close> in \<^verbatim>\<open>sys.exit(1)\<close> with one
  printed line and nothing spawned.
\<close>

theorem one_cookie_source:
  "(''--cookies'' \<notin> supplied a \<and> ''--cookies-from-browser'' \<notin> supplied a \<longrightarrow>
      \<not> (''--cookies'' \<in> set (download_cmd ex a) \<and>
         ''--cookies-from-browser'' \<in> set (download_cmd ex a))) \<and>
   (''--cookies'' \<notin> interactive_supplied self ia format_choice \<and>
    ''--cookies-from-browser'' \<notin> interactive_supplied self ia format_choice \<longrightarrow>
      \<not> (''--cookies'' \<in> set (interactive_download_cmd self ia format_choice) \<and>
         ''--cookies-from-browser'' \<in> set (interactive_download_cmd self ia format_choice))) \<and>
   (use_cookies ia \<and> truthy (cookies_path self) \<longrightarrow>
      interactive_cookie_args self ia = [''--cookies'', the (cookies_path self)] \<and>
      interactive_download_cmd self ia format_choice =
        interactive_download_cmd self (ia\<lparr>browser_cookies := None\<rparr>) format_choice) \<and>
   (truthy (cookies a) \<and> truthy (browser a) \<longrightarrow>
      main ex procs a w = (SysExit 1, w @ [Print EitherCookiesOrBrowser]))"
proof -
  have 1: "''--cookies'' \<notin> supplied a \<and> ''--cookies-from-browser'' \<notin> supplied a \<longrightarrow>
      \<not> (''--cookies'' \<in> set (download_cmd ex a) \<and>
         ''--cookies-from-browser'' \<in> set (download_cmd ex a))"
    unfolding download_cmd_parts
    by (auto simp: part_defs supplied_def truthy_iff split: if_splits)
  have 2: "''--cookies'' \<notin> interactive_supplied self ia format_choice \<and>
      ''--cookies-from-browser'' \<notin> interactive_supplied self ia format_choice \<longrightarrow>
      \<not> (''--cookies'' \<in> set (interactive_download_cmd self ia format_choice) \<and>
         ''--cookies-from-browser'' \<in> set (interactive_download_cmd self ia format_choice))"
    unfolding interactive_download_cmd_parts
    by (auto simp: interactive_seg_defs interactive_supplied_def truthy_iff split: if_splits)
  have 3: "use_cookies ia \<and> truthy (cookies_path self) \<longrightarrow>
      interactive_cookie_args self ia = [''--cookies'', the (cookies_path self)] \<and>
      interactive_download_cmd self ia format_choice =
        interactive_download_cmd self (ia\<lparr>browser_cookies := None\<rparr>) format_choice"
    by (simp add: interactive_download_cmd_parts interactive_part_defs)
  have 4: "truthy (cookies a) \<and> truthy (browser a) \<longrightarrow>
      main ex procs a w = (SysExit 1, w @ [Print EitherCookiesOrBrowser])"
    by (simp add: main_def print_line_def)
  from 1 2 3 4 show ?thesis by blast
qed

theorem one_cookie_source_witness:
  "''--cookies'' \<notin> supplied (plain_args\<lparr>browser := Some ''firefox''\<rparr>) \<and>
   ''--cookies-from-browser'' \<notin> supplied (plain_args\<lparr>browser := Some ''firefox''\<rparr>) \<and>
   \<not> (''--cookies'' \<in> set (download_cmd no_files (plain_args\<lparr>browser := Some ''firefox''\<rparr>)) \<and>
      ''--cookies-from-browser'' \<in>
        set (download_cmd no_files (plain_args\<lparr>browser := Some ''firefox''\<rparr>))) \<and>
   ''--cookies'' \<notin>
     interactive_supplied found_cookies
       (plain_interactive_args\<lparr>use_cookies := True, browser_cookies := Some ''firefox''\<rparr>) [] \<and>
   ''--cookies-from-browser'' \<notin>
     interactive_supplied found_cookies
       (plain_interactive_args\<lparr>use_cookies := True, browser_cookies := Some ''firefox''\<rparr>) [] \<and>
   \<not> (''--cookies'' \<in>
        set (interactive_download_cmd found_cookies
               (plain_interactive_args\<lparr>use_cookies := True, browser_cookies := Some ''firefox''\<rparr>)
               []) \<and>
      ''--cookies-from-browser'' \<in>
        set (interactive_download_cmd found_cookies
               (plain_interactive_args\<lparr>use_cookies := True, browser_cookies := Some ''firefox''\<rparr>)
               [])) \<and>
   use_cookies (plain_interactive_args\<lparr>use_cookies := True, browser_cookies := Some ''firefox''\<rparr>) \<and>
   truthy (cookies_path found_cookies) \<and>
   interactive_cookie_args found_cookies
       (plain_interactive_args\<lparr>use_cookies := True, browser_cookies := Some ''firefox''\<rparr>) =
     [''--cookies'', ''cookies.txt''] \<and>
   truthy (cookies (plain_args\<lparr>cookies := Some ''cookies.txt'', browser := Some ''firefox''\<rparr>)) \<and>
   truthy (browser (plain_args\<lparr>cookies := Some ''cookies.txt'', browser := Some ''firefox''\<rparr>)) \<and>
   main (only_file ''cookies.txt'') (procs_exit 0)
       (plain_args\<lparr>cookies := Some ''cookies.txt'', browser := Some ''firefox''\<rparr>) [] =
     (SysExit 1, [Print EitherCookiesOrBrowser])"
proof -
  have h1: "''--cookies'' \<notin> supplied (plain_args\<lparr>browser := Some ''firefox''\<rparr>) \<and>
      ''--cookies-from-browser'' \<notin> supplied (plain_args\<lparr>browser := Some ''firefox''\<rparr>)"
    by (simp add: plain_args_def supplied_def)
  have h2: "''--cookies'' \<notin>
        interactive_supplied found_cookies
          (plain_interactive_args\<lparr>use_cookies := True, browser_cookies := Some ''firefox''\<rparr>) [] \<and>
      ''--cookies-from-browser'' \<notin>
        interactive_supplied found_cookies
          (plain_interactive_args\<lparr>use_cookies := True, browser_cookies := Some ''firefox''\<rparr>) []"
    by (simp add: plain_interactive_args_def interactive_supplied_def found_cookies_def)
  have h3: "use_cookies
        (plain_interactive_args\<lparr>use_cookies := True, browser_cookies := Some ''firefox''\<rparr>) \<and>
      truthy (cookies_path found_cookies)"
    by (simp add: found_cookies_def truthy_def)
  have h4: "truthy (cookies (plain_args\<lparr>cookies := Some ''cookies.txt'', browser := Some ''firefox''\<rparr>)) \<and>
      truthy (browser (plain_args\<lparr>cookies := Some ''cookies.txt'', browser := Some ''firefox''\<rparr>))"
    by (simp add: truthy_def)
  have p: "the (cookies_path found_cookies) = ''cookies.txt''"
    by (simp add: found_cookies_def)
  have c1: "\<not> (''--cookies'' \<in>
          set (download_cmd no_files (plain_args\<lparr>browser := Some ''firefox''\<rparr>)) \<and>
        ''--cookies-from-browser'' \<in>
          set (download_cmd no_files (plain_args\<lparr>browser := Some ''firefox''\<rparr>)))"
    using h1 one_cookie_source
      [where a = "plain_args\<lparr>browser := Some ''firefox''\<rparr>" and ex = no_files]
    by blast
  note inst = one_cookie_source
    [where self = found_cookies
       and ia = "plain_interactive_args\<lparr>use_cookies := True, browser_cookies := Some ''firefox''\<rparr>"
       and format_choice = "[]"]
  have c2: "\<not> (''--cookies'' \<in>
        set (interactive_download_cmd found_cookies
               (plain_interactive_args\<lparr>use_cookies := True, browser_cookies := Some ''firefox''\<rparr>)
               []) \<and>
      ''--cookies-from-browser'' \<in>
        set (interactive_download_cmd found_cookies
               (plain_interactive_args\<lparr>use_cookies := True, browser_cookies := Some ''firefox''\<rparr>)
               []))"
    using h2 inst by blast
  have "interactive_cookie_args found_cookies
       (plain_interactive_args\<lparr>use_cookies := True, browser_cookies := Some ''firefox''\<rparr>) =
     [''--cookies'', the (cookies_path found_cookies)]"
    using h3 inst by blast
  with p have c3: "interactive_cookie_args found_cookies
       (plain_interactive_args\<lparr>use_cookies := True, browser_cookies := Some ''firefox''\<rparr>) =
     [''--cookies'', ''cookies.txt'']"
    by simp
  have c4: "main (only_file ''cookies.txt'') (procs_exit 0)
       (plain_args\<lparr>cookies := Some ''cookies.txt'', browser := Some ''firefox''\<rparr>) [] =
     (SysExit 1, [] @ [Print EitherCookiesOrBrowser])"
    using h4 one_cookie_source
      [where a = "plain_args\<lparr>cookies := Some ''cookies.txt'', browser := Some ''firefox''\<rparr>"
         and ex = "only_file ''cookies.txt''" and procs = "procs_exit 0" and w = "[]"]
    by blast
  from h1 h2 h3 h4 c1 c2 c3 c4 show ?thesis by simp
qed

section \<open>A cookie file that is not there\<close>

text \<open>
  C9. In the flag-parsing script, when a cookie path is given and no file exists there,
  \<open>download\<close> prints the warning, builds the command it would build with no cookie
  option at all (so no \<^verbatim>\<open>--cookies\<close> flag is added, and no browser flag either), and
  goes on exactly as a download without cookie options does: the command is spawned and
  the outcome is the one the subprocess gives.
\<close>

theorem missing_cookies_file_proceeds:
  "truthy (cookies a) \<and> \<not> ex (the (cookies a)) \<longrightarrow>
     cookie_args ex a = [] \<and>
     download_cmd ex a = download_cmd ex (a\<lparr>cookies := None, browser := None\<rparr>) \<and>
     download ex procs a w =
       download ex procs (a\<lparr>cookies := None, browser := None\<rparr>)
         (w @ [Print (CookiesNotFoundWarning (the (cookies a)))]) \<and>
     snd (download ex procs a w) =
       w @ [Print (CookiesNotFoundWarning (the (cookies a))), Spawn (download_cmd ex a)] @
       (case procs (spawn_count w) (download_cmd ex a) of
          Exited rc \<Rightarrow>
            if rc = 0 then [] else [Print (ErrorDownloadingVideo (download_cmd ex a) rc)]
        | NotFound \<Rightarrow> [])"
proof -
  have 1: "truthy (cookies a) \<and> \<not> ex (the (cookies a)) \<longrightarrow> cookie_args ex a = []"
    by (simp add: cookie_args_def)
  have 2: "truthy (cookies a) \<and> \<not> ex (the (cookies a)) \<longrightarrow>
      download_cmd ex a = download_cmd ex (a\<lparr>cookies := None, browser := None\<rparr>)"
    by (simp add: download_cmd_parts part_defs truthy_def)
  have 3: "truthy (cookies a) \<and> \<not> ex (the (cookies a)) \<longrightarrow>
      download ex procs a w =
        download ex procs (a\<lparr>cookies := None, browser := None\<rparr>)
          (w @ [Print (CookiesNotFoundWarning (the (cookies a)))])"
    using 2 by (simp add: download_def cookies_warning_def print_line_def truthy_def)
  have 4: "truthy (cookies a) \<and> \<not> ex (the (cookies a)) \<longrightarrow>
      snd (download ex procs a w) =
       w @ [Print (CookiesNotFoundWarning (the (cookies a))), Spawn (download_cmd ex a)] @
       (case procs (spawn_count w) (download_cmd ex a) of
          Exited rc \<Rightarrow>
            if rc = 0 then [] else [Print (ErrorDownloadingVideo (download_cmd ex a) rc)]
        | NotFound \<Rightarrow> [])"
    by (simp add: snd_download cookies_warning_def print_line_def)
  from 1 2 3 4 show ?thesis by blast
qed

theorem missing_cookies_file_proceeds_witness:
  "truthy (cookies (plain_args\<lparr>cookies := Some ''missing.txt''\<rparr>)) \<and>
   \<not> no_files (the (cookies (plain_args\<lparr>cookies := Some ''missing.txt''\<rparr>))) \<and>
   download_cmd no_files (plain_args\<lparr>cookies := Some ''missing.txt''\<rparr>) =
     [''yt-dlp'', ''--no-playlist'', ''https://example.org/v''] \<and>
   download no_files (procs_exit 0) (plain_args\<lparr>cookies := Some ''missing.txt''\<rparr>) [] =
     (Return (),
      [Print (CookiesNotFoundWarning ''missing.txt''),
       Spawn [''yt-dlp'', ''--no-playlist'', ''https://example.org/v'']])"
proof -
  have h: "truthy (cookies (plain_args\<lparr>cookies := Some ''missing.txt''\<rparr>)) \<and>
      \<not> no_files (the (cookies (plain_args\<lparr>cookies := Some ''missing.txt''\<rparr>)))"
    by (simp add: truthy_def no_files_def)
  have e: "plain_args\<lparr>cookies := Some ''missing.txt'', cookies := None, browser := None\<rparr> =
      plain_args"
    by (simp add: plain_args_def)
  note inst = missing_cookies_file_proceeds
    [where a = "plain_args\<lparr>cookies := Some ''missing.txt''\<rparr>" and ex = no_files
       and procs = "procs_exit 0" and w = "[]"]
  have "download_cmd no_files (plain_args\<lparr>cookies := Some ''missing.txt''\<rparr>) =
      download_cmd no_files
        (plain_args\<lparr>cookies := Some ''missing.txt'', cookies := None, browser := None\<rparr>)"
    using h inst by blast
  then have c1: "download_cmd no_files (plain_args\<lparr>cookies := Some ''missing.txt''\<rparr>) =
      [''yt-dlp'', ''--no-playlist'', ''https://example.org/v'']"
    by (simp only: e download_cmd_plain_args)
  have "download no_files (procs_exit 0) (plain_args\<lparr>cookies := Some ''missing.txt''\<rparr>) [] =
      download no_files (procs_exit 0)
        (plain_args\<lparr>cookies := Some ''missing.txt'', cookies := None, browser := None\<rparr>)
        ([] @ [Print (CookiesNotFoundWarning
                 (the (cookies (plain_args\<lparr>cookies := Some ''missing.txt''\<rparr>))))])"
    using h inst by blast
  moreover have "the (cookies (plain_args\<lparr>cookies := Some ''missing.txt''\<rparr>)) = ''missing.txt''"
    by simp
  moreover have "download no_files (procs_exit 0) plain_args
        [Print (CookiesNotFoundWarning ''missing.txt'')] =
      (Return (),
       [Print (CookiesNotFoundWarning ''missing.txt''),
        Spawn [''yt-dlp'', ''--no-playlist'', ''https://example.org/v'']])"
    by (simp add: download_def Let_def subprocess_run_def cookies_warning_def
        download_cmd_plain_args procs_exit_other)
  ultimately have c2: "download no_files (procs_exit 0)
        (plain_args\<lparr>cookies := Some ''missing.txt''\<rparr>) [] =
      (Return (),
       [Print (CookiesNotFoundWarning ''missing.txt''),
        Spawn [''yt-dlp'', ''--no-playlist'', ''https://example.org/v'']])"
    by (simp only: e append_Nil)
  from h c1 c2 show ?thesis by blast
qed

section \<open>The cookie path and the command list between calls\<close>

lemma run_from_authentication_self:
  "fst (snd (run_from_authentication procs self ans dtype w)) = self"
  by (simp add: run_from_authentication_def Let_def interactive_download_eq)

lemma run_interactive_self: "fst (snd (run_interactive procs self ans w)) = self"
proof (cases "ans_download_type ans = ''list''")
  case False
  then show ?thesis by (simp add: run_interactive_def Let_def run_from_authentication_self)
next
  case True
  show ?thesis
  proof (cases "ans_urls ans")
    case Nil
    with True show ?thesis by (simp add: run_interactive_def Let_def)
  next
    case (Cons url rest)
    with True show ?thesis
      by (simp add: run_interactive_def Let_def interactive_get_available_formats_eq
          run_from_authentication_self split: proc_result.split)
  qed
qed

lemma init_cookies_path:
  "fst (init ex procs w) = Return self \<Longrightarrow> cookies_path self = find_cookies_file ex"
  by (auto simp: init_def split: prod.splits result.splits)

text \<open>
  C7. \<^verbatim>\<open>__init__\<close> sets \<open>cookies_path\<close> to what \<open>find_cookies_file\<close> found, and no
  later call changes it: after \<open>download\<close>, after \<open>get_available_formats\<close> and after
  the whole dialogue the field is what it was before. The command a call of \<open>download\<close>
  spawns is built from the object and that call's own arguments, whatever ran before:
  of two calls in a row, the second spawns the command it would spawn as a first call,
  with nothing of the first call's command left in it.
\<close>

theorem cookies_path_unchanged:
  "(fst (init ex procs w) = Return self0 \<longrightarrow> cookies_path self0 = find_cookies_file ex) \<and>
   cookies_path (fst (snd (interactive_download procs self ia format_choice w))) =
     cookies_path self \<and>
   cookies_path (fst (snd (interactive_get_available_formats procs self url use_cks w))) =
     cookies_path self \<and>
   cookies_path (fst (snd (run_interactive procs self ans w))) = cookies_path self \<and>
   spawned (snd (snd (interactive_download procs self ia format_choice w))) =
     spawned w @ [interactive_download_cmd self ia format_choice] \<and>
   cookies_path
     (fst (snd (interactive_download procs
        (fst (snd (interactive_download procs self ia format_choice w))) ia2 format_choice2
        (snd (snd (interactive_download procs self ia format_choice w)))))) =
     cookies_path self \<and>
   spawned
     (snd (snd (interactive_download procs
        (fst (snd (interactive_download procs self ia format_choice w))) ia2 format_choice2
        (snd (snd (interactive_download procs self ia format_choice w)))))) =
     spawned w @ [interactive_download_cmd self ia format_choice,
                  interactive_download_cmd self ia2 format_choice2]"
proof -
  have 1: "fst (init ex procs w) = Return self0 \<longrightarrow> cookies_path self0 = find_cookies_file ex"
    using init_cookies_path [of ex procs w self0] by blast
  have 2: "fst (snd (interactive_download procs s x fc v)) = s" for s x fc v
    by (simp add: interactive_download_eq)
  have 3: "fst (snd (interactive_get_available_formats procs self url use_cks w)) = self"
    by (simp add: interactive_get_available_formats_eq)
  have 4: "spawned (snd (snd (interactive_download procs s x fc v))) =
      spawned v @ [interactive_download_cmd s x fc]" for s x fc v
    by (simp add: interactive_download_eq split: proc_result.split)
  show ?thesis
    using 1 by (simp add: 2 3 4 run_interactive_self)
qed

theorem cookies_path_unchanged_witness:
  "fst (init (only_file ''cookies.txt'') (procs_exit 0) []) = Return found_cookies \<and>
   cookies_path found_cookies = find_cookies_file (only_file ''cookies.txt'') \<and>
   cookies_path
     (fst (snd (interactive_download (procs_exit 0) found_cookies plain_interactive_args [] []))) =
     Some ''cookies.txt''"
proof -
  have f: "find_cookies_file (only_file ''cookies.txt'') = Some ''cookies.txt''"
    by (simp add: find_cookies_file_def cookie_files_def only_file_def)
  have h: "fst (init (only_file ''cookies.txt'') (procs_exit 0) []) = Return found_cookies"
    by (simp add: init_def check_ytdlp_installed_procs_exit f found_cookies_def)
  note inst = cookies_path_unchanged
    [where ex = "only_file ''cookies.txt''" and procs = "procs_exit 0" and w = "[]"
       and ?self0.0 = found_cookies and self = found_cookies and ia = plain_interactive_args
       and format_choice = "[]"]
  have c1: "cookies_path found_cookies = find_cookies_file (only_file ''cookies.txt'')"
    using h inst by blast
  have "cookies_path
     (fst (snd (interactive_download (procs_exit 0) found_cookies plain_interactive_args [] []))) =
     cookies_path found_cookies"
    using inst by blast
  with c1 f have c2: "cookies_path
     (fst (snd (interactive_download (procs_exit 0) found_cookies plain_interactive_args [] []))) =
     Some ''cookies.txt''"
    by simp
  from h c1 c2 show ?thesis by blast
qed

section \<open>How often the external program is started\<close>

lemma started_from_append:
  "started_from procs n (w @ v) =
     started_from procs n w @ started_from procs (n + spawn_count w) v"
proof (induction w arbitrary: n)
  case Nil
  then show ?case by simp
next
  case (Cons e w)
  then show ?case by (cases e) simp_all
qed

lemma started_append:
  "started procs (w @ v) = started procs w @ started_from procs (spawn_count w) v"
  by (simp add: started_def started_from_append)

lemma started_Nil [simp]: "started procs [] = []"
  by (simp add: started_def)

lemma started_print_line [simp]: "started procs (print_line out w) = started procs w"
  by (simp add: print_line_def started_append)

lemma started_cookies_warning [simp]: "started procs (cookies_warning ex a w) = started procs w"
  by (simp add: cookies_warning_def print_line_def started_append)

lemma check_ytdlp_installed_eq:
  "check_ytdlp_installed procs w =
     (case procs (spawn_count w) [''yt-dlp'', ''--version''] of
        Exited rc \<Rightarrow>
          if rc = 0 then (Return (), w @ [Spawn [''yt-dlp'', ''--version'']])
          else (SysExit 1,
                w @ [Spawn [''yt-dlp'', ''--version''], Print YtdlpNotFound,
                     Print InstallationInstructions])
      | NotFound \<Rightarrow>
          (SysExit 1,
           w @ [Spawn [''yt-dlp'', ''--version''], Print YtdlpNotFound,
                Print InstallationInstructions]))"
  by (simp add: check_ytdlp_installed_def subprocess_run_def print_line_def
      split: proc_result.split)

lemma run_from_authentication_eq:
  "run_from_authentication procs self ans dtype w =
     (if ans_start ans
      then interactive_download procs self (answers_args self ans dtype) (ans_format_choice ans)
             (w @ [Print Separator])
      else (Return (), self, w @ [Print Separator, Print DownloadCanceled]))"
  by (simp add: run_from_authentication_def answers_args_def Let_def print_line_def)

lemma started_download:
  "started procs (snd (download ex procs a w)) =
     started procs w @
     (case procs (spawn_count w) (download_cmd ex a) of
        Exited rc \<Rightarrow> [download_cmd ex a] | NotFound \<Rightarrow> [])"
  by (simp add: snd_download started_append split: proc_result.split)

lemma started_interactive_download:
  "started procs (snd (snd (interactive_download procs self ia format_choice w))) =
     started procs w @
     (case procs (spawn_count w) (interactive_download_cmd self ia format_choice) of
        Exited rc \<Rightarrow> [interactive_download_cmd self ia format_choice] | NotFound \<Rightarrow> [])"
  by (simp add: interactive_download_eq started_append split: proc_result.split)

lemma started_main:
  "started procs (snd (main ex procs a [])) =
     (if truthy (cookies a) \<and> truthy (browser a) then []
      else case procs 0 [''yt-dlp'', ''--version''] of
             NotFound \<Rightarrow> []
           | Exited rc \<Rightarrow>
               if rc \<noteq> 0 then [[''yt-dlp'', ''--version'']]
               else [''yt-dlp'', ''--version''] #
                    (case procs 1 (download_cmd ex a) of
                       NotFound \<Rightarrow> [] | Exited rc' \<Rightarrow> [download_cmd ex a]))"
proof (cases "truthy (cookies a) \<and> truthy (browser a)")
  case True
  then show ?thesis by (simp add: main_def print_line_def started_def)
next
  case False
  show ?thesis
  proof (cases "procs 0 [''yt-dlp'', ''--version'']")
    case NotFound
    with False show ?thesis by (simp add: main_def check_ytdlp_installed_eq started_def print_line_def)
  next
    case (Exited rc)
    show ?thesis
    proof (cases "rc = 0")
      case nz: False
      with False Exited show ?thesis
        by (simp add: main_def check_ytdlp_installed_eq started_def print_line_def)
    next
      case True
      have "started procs [Spawn [''yt-dlp'', ''--version'']] = [[''yt-dlp'', ''--version'']]"
        using Exited by (simp add: started_def)
      with False Exited True show ?thesis
        by (simp add: main_def check_ytdlp_installed_eq started_download
            split: proc_result.split)
    qed
  qed
qed

lemma started_interactive_get_available_formats:
  "started procs (snd (snd (interactive_get_available_formats procs self url use_cks w))) =
     started procs w @
     (case procs (spawn_count w) (interactive_formats_cmd self url use_cks) of
        Exited rc \<Rightarrow> [interactive_formats_cmd self url use_cks] | NotFound \<Rightarrow> [])"
  by (simp add: interactive_get_available_formats_eq started_append split: proc_result.split)

lemma started_run_from_authentication:
  "started procs (snd (snd (run_from_authentication procs self ans dtype w))) =
     started procs w @
     (if ans_start ans
      then (case procs (spawn_count w)
                   (interactive_download_cmd self (answers_args self ans dtype)
                      (ans_format_choice ans)) of
              Exited rc \<Rightarrow>
                [interactive_download_cmd self (answers_args self ans dtype)
                   (ans_format_choice ans)]
            | NotFound \<Rightarrow> [])
      else [])"
  by (simp add: run_from_authentication_eq started_interactive_download started_append)

lemma started_run_interactive:
  "started procs (snd (snd (run_interactive procs self ans w))) =
     started procs w @
     (if ans_download_type ans = ''list''
      then (case ans_urls ans of
              [] \<Rightarrow> []
            | url # rest \<Rightarrow>
                (case procs (spawn_count w)
                        (interactive_formats_cmd self url
                           (prompt_use_cookies self (ans_list_use_cookies ans))) of
                   NotFound \<Rightarrow> []
                 | Exited rcf \<Rightarrow>
                     interactive_formats_cmd self url
                       (prompt_use_cookies self (ans_list_use_cookies ans)) #
                     (if ans_start ans
                      then (case procs (Suc (spawn_count w))
                                   (interactive_download_cmd self
                                      (answers_args self ans (ans_download_type_again ans))
                                      (ans_format_choice ans)) of
                              Exited rc \<Rightarrow>
                                [interactive_download_cmd self
                                   (answers_args self ans (ans_download_type_again ans))
                                   (ans_format_choice ans)]
                            | NotFound \<Rightarrow> [])
                      else [])))
      else (if ans_start ans
            then (case procs (spawn_count w)
                         (interactive_download_cmd self
                            (answers_args self ans (ans_download_type ans))
                            (ans_format_choice ans)) of
                    Exited rc \<Rightarrow>
                      [interactive_download_cmd self
                         (answers_args self ans (ans_download_type ans))
                         (ans_format_choice ans)]
                  | NotFound \<Rightarrow> [])
            else []))"
proof (cases "ans_download_type ans = ''list''")
  case False
  then show ?thesis
    by (simp add: run_interactive_def Let_def started_run_from_authentication print_line_def
        started_append)
next
  case True
  show ?thesis
  proof (cases "ans_urls ans")
    case Nil
    with True show ?thesis
      by (simp add: run_interactive_def Let_def print_line_def started_append)
  next
    case (Cons url rest)
    show ?thesis
    proof (cases "procs (spawn_count w)
        (interactive_formats_cmd self url (prompt_use_cookies self (ans_list_use_cookies ans)))")
      case NotFound
      with True Cons show ?thesis
        by (simp add: run_interactive_def Let_def print_line_def started_append
            interactive_get_available_formats_eq)
    next
      case (Exited rcf)
      with True Cons show ?thesis
        by (simp add: run_interactive_def Let_def print_line_def started_append
            interactive_get_available_formats_eq started_run_from_authentication)
    qed
  qed
qed

lemma started_interactive_main:
  "started procs (snd (interactive_main ex procs ans [])) =
     (let self = \<lparr>cookies_path = find_cookies_file ex\<rparr> in
      case procs 0 [''yt-dlp'', ''--version''] of
        NotFound \<Rightarrow> []
      | Exited rc \<Rightarrow>
          if rc \<noteq> 0 then [[''yt-dlp'', ''--version'']]
          else [''yt-dlp'', ''--version''] #
            (if ans_download_type ans = ''list''
             then (case ans_urls ans of
                     [] \<Rightarrow> []
                   | url # rest \<Rightarrow>
                       (case procs 1
                               (interactive_formats_cmd self url
                                  (prompt_use_cookies self (ans_list_use_cookies ans))) of
                          NotFound \<Rightarrow> []
                        | Exited rcf \<Rightarrow>
                            interactive_formats_cmd self url
                              (prompt_use_cookies self (ans_list_use_cookies ans)) #
                            (if ans_start ans
                             then (case procs 2
                                          (interactive_download_cmd self
                                             (answers_args self ans (ans_download_type_again ans))
                                             (ans_format_choice ans)) of
                                     Exited rc \<Rightarrow>
                                       [interactive_download_cmd self
                                          (answers_args self ans (ans_download_type_again ans))
                                          (ans_format_choice ans)]
                                   | NotFound \<Rightarrow> [])
                             else [])))
             else (if ans_start ans
                   then (case procs 1
                                (interactive_download_cmd self
                                   (answers_args self ans (ans_download_type ans))
                                   (ans_format_choice ans)) of
                           Exited rc \<Rightarrow>
                             [interactive_download_cmd self
                                (answers_args self ans (ans_download_type ans))
                                (ans_format_choice ans)]
                         | NotFound \<Rightarrow> [])
                   else [])))"
proof (cases "procs 0 [''yt-dlp'', ''--version'']")
  case NotFound
  then show ?thesis
    by (simp add: interactive_main_def init_def check_ytdlp_installed_eq started_def)
next
  case (Exited rc)
  show ?thesis
  proof (cases "rc = 0")
    case False
    with Exited show ?thesis
      by (simp add: interactive_main_def init_def check_ytdlp_installed_eq started_def)
  next
    case True
    have v: "started procs [Spawn [''yt-dlp'', ''--version'']] = [[''yt-dlp'', ''--version'']]"
      using Exited by (simp add: started_def)
    have two: "Suc (Suc 0) = 2"
      by simp
    have "snd (interactive_main ex procs ans []) =
        snd (snd (run_interactive procs \<lparr>cookies_path = find_cookies_file ex\<rparr> ans
                    [Spawn [''yt-dlp'', ''--version'']]))"
      using Exited True
      by (simp add: interactive_main_def init_def check_ytdlp_installed_eq split: prod.split)
    then show ?thesis
      using Exited True v
      by (simp only: started_run_interactive Let_def spawn_count_Cons two)
         (simp split: list.split proc_result.split)
  qed
qed

text \<open>
  C6, as the claim states it, fails: with yt-dlp installed, a plain run of the
  flag-parsing script starts the external program twice, first for
  \<^verbatim>\<open>yt-dlp --version\<close> and then for the download.
\<close>

theorem one_spawn_per_run_counterexample:
  "started (procs_exit 0) (snd (main no_files (procs_exit 0) plain_args [])) =
     [[''yt-dlp'', ''--version''], [''yt-dlp'', ''--no-playlist'', ''https://example.org/v'']] \<and>
   length (started (procs_exit 0) (snd (main no_files (procs_exit 0) plain_args []))) = 2"
  by (simp add: started_main download_cmd_plain_args procs_exit_def)

text \<open>
  C6, amended. A call of \<^verbatim>\<open>subprocess.run\<close> starts the external program unless the
  executable is missing. Every call of \<open>download\<close> makes exactly one such call, with
  the download command. A run of the flag-parsing script starts nothing when both cookie
  options are given or when yt-dlp is missing, only \<^verbatim>\<open>yt-dlp --version\<close> when that
  check ends with a nonzero return code, and otherwise \<^verbatim>\<open>yt-dlp --version\<close> and then
  the download command: two processes, one after the other (one if the executable has
  gone missing in between). A run of the interactive script starts nothing when yt-dlp
  is missing, only the check when it fails, and otherwise the check, then the listing of
  formats if the type \<^verbatim>\<open>list\<close> was chosen and there is a URL, then the download command
  if the user confirms the start (a missing executable at the listing ends the run).
\<close>

theorem processes_per_run:
  "spawned (snd (download ex procs a w)) = spawned w @ [download_cmd ex a] \<and>
   started procs (snd (download ex procs a w)) =
     started procs w @
     (case procs (spawn_count w) (download_cmd ex a) of
        Exited rc \<Rightarrow> [download_cmd ex a] | NotFound \<Rightarrow> []) \<and>
   spawned (snd (snd (interactive_download procs self ia format_choice w))) =
     spawned w @ [interactive_download_cmd self ia format_choice] \<and>
   started procs (snd (snd (interactive_download procs self ia format_choice w))) =
     started procs w @
     (case procs (spawn_count w) (interactive_download_cmd self ia format_choice) of
        Exited rc \<Rightarrow> [interactive_download_cmd self ia format_choice] | NotFound \<Rightarrow> []) \<and>
   started procs (snd (main ex procs a [])) =
     (if truthy (cookies a) \<and> truthy (browser a) then []
      else case procs 0 [''yt-dlp'', ''--version''] of
             NotFound \<Rightarrow> []
           | Exited rc \<Rightarrow>
               if rc \<noteq> 0 then [[''yt-dlp'', ''--version'']]
               else [''yt-dlp'', ''--version''] #
                    (case procs 1 (download_cmd ex a) of
                       NotFound \<Rightarrow> [] | Exited rc' \<Rightarrow> [download_cmd ex a])) \<and>
   started procs (snd (interactive_main ex procs ans [])) =
     (let self = \<lparr>cookies_path = find_cookies_file ex\<rparr> in
      case procs 0 [''yt-dlp'', ''--version''] of
        NotFound \<Rightarrow> []
      | Exited rc \<Rightarrow>
          if rc \<noteq> 0 then [[''yt-dlp'', ''--version'']]
          else [''yt-dlp'', ''--version''] #
            (if ans_download_type ans = ''list''
             then (case ans_urls ans of
                     [] \<Rightarrow> []
                   | url # rest \<Rightarrow>
                       (case procs 1
                               (interactive_formats_cmd self url
                                  (prompt_use_cookies self (ans_list_use_cookies ans))) of
                          NotFound \<Rightarrow> []
                        | Exited rcf \<Rightarrow>
                            interactive_formats_cmd self url
                              (prompt_use_cookies self (ans_list_use_cookies ans)) #
                            (if ans_start ans
                             then (case procs 2
                                          (interactive_download_cmd self
                                             (answers_args self ans (ans_download_type_again ans))
                                             (ans_format_choice ans)) of
                                     Exited rc \<Rightarrow>
                                       [interactive_download_cmd self
                                          (answers_args self ans (ans_download_type_again ans))
                                          (ans_format_choice ans)]
                                   | NotFound \<Rightarrow> [])
                             else [])))
             else (if ans_start ans
                   then (case procs 1
                                (interactive_download_cmd self
                                   (answers_args self ans (ans_download_type ans))
                                   (ans_format_choice ans)) of
                           Exited rc \<Rightarrow>
                             [interactive_download_cmd self
                                (answers_args self ans (ans_download_type ans))
                                (ans_format_choice ans)]
                         | NotFound \<Rightarrow> [])
                   else [])))"
proof -
  have 1: "spawned (snd (download ex procs a w)) = spawned w @ [download_cmd ex a]"
    by (simp add: snd_download split: proc_result.split)
  have 2: "spawned (snd (snd (interactive_download procs self ia format_choice w))) =
      spawned w @ [interactive_download_cmd self ia format_choice]"
    by (simp add: interactive_download_eq split: proc_result.split)
  show ?thesis
    by (intro conjI 1 2 started_download started_interactive_download started_main
        started_interactive_main)
qed

theorem processes_per_run_witness:
  "started procs_missing (snd (main no_files procs_missing plain_args [])) = [] \<and>
   started procs_missing (snd (interactive_main no_files procs_missing plain_answers [])) = [] \<and>
   started (procs_exit 0) (snd (main no_files (procs_exit 0) plain_args [])) =
     [[''yt-dlp'', ''--version''], [''yt-dlp'', ''--no-playlist'', ''https://example.org/v'']] \<and>
   started (procs_exit 0) (snd (interactive_main no_files (procs_exit 0) plain_answers [])) =
     [[''yt-dlp'', ''--version''],
      [''yt-dlp'', ''-f'', ''bestvideo[ext=mp4]+bestaudio[ext=m4a]/best[ext=mp4]'',
       ''-o'', ''%(title)s.%(ext)s'', ''https://example.org/v'']] \<and>
   started (procs_exit 0)
     (snd (interactive_main no_files (procs_exit 0)
             (plain_answers\<lparr>ans_download_type := ''list'', ans_start := False\<rparr>) [])) =
     [[''yt-dlp'', ''--version''], [''yt-dlp'', ''-F'', ''https://example.org/v'']]"
proof -
  have f: "find_cookies_file no_files = None"
    by (simp add: find_cookies_file_def cookie_files_def no_files_def)
  have d: "interactive_download_cmd \<lparr>cookies_path = None\<rparr>
      (answers_args \<lparr>cookies_path = None\<rparr> plain_answers ''video'') ''bestvideo+bestaudio'' =
     [''yt-dlp'', ''-f'', ''bestvideo[ext=mp4]+bestaudio[ext=m4a]/best[ext=mp4]'',
      ''-o'', ''%(title)s.%(ext)s'', ''https://example.org/v'']"
    by (simp add: interactive_download_cmd_def answers_args_def plain_answers_def Let_def
        prompt_use_cookies_def truthy_def)
  have l: "interactive_formats_cmd \<lparr>cookies_path = None\<rparr> ''https://example.org/v''
      (prompt_use_cookies \<lparr>cookies_path = None\<rparr> False) =
     [''yt-dlp'', ''-F'', ''https://example.org/v'']"
    by (simp add: interactive_formats_cmd_def prompt_use_cookies_def truthy_def)
  have a: "ans_download_type plain_answers = ''video'' \<and> ans_start plain_answers \<and>
      ans_format_choice plain_answers = ''bestvideo+bestaudio'' \<and>
      ans_urls plain_answers = [''https://example.org/v''] \<and>
      \<not> ans_list_use_cookies plain_answers"
    by (simp add: plain_answers_def)
  have c1: "started procs_missing (snd (main no_files procs_missing plain_args [])) = []"
    using processes_per_run [where procs = procs_missing and ex = no_files and a = plain_args]
    by (simp add: procs_missing_def)
  have c2: "started procs_missing
      (snd (interactive_main no_files procs_missing plain_answers [])) = []"
    using processes_per_run [where procs = procs_missing and ex = no_files and ans = plain_answers]
    by (simp add: procs_missing_def)
  have c3: "started (procs_exit 0) (snd (main no_files (procs_exit 0) plain_args [])) =
     [[''yt-dlp'', ''--version''], [''yt-dlp'', ''--no-playlist'', ''https://example.org/v'']]"
    using processes_per_run [where procs = "procs_exit 0" and ex = no_files and a = plain_args]
    by (simp add: download_cmd_plain_args procs_exit_def)
  have c4: "started (procs_exit 0)
      (snd (interactive_main no_files (procs_exit 0) plain_answers [])) =
     [[''yt-dlp'', ''--version''],
      [''yt-dlp'', ''-f'', ''bestvideo[ext=mp4]+bestaudio[ext=m4a]/best[ext=mp4]'',
       ''-o'', ''%(title)s.%(ext)s'', ''https://example.org/v'']]"
    using processes_per_run
      [where procs = "procs_exit 0" and ex = no_files and ans = plain_answers]
    by (simp add: f a d procs_exit_def)
  have c5: "started (procs_exit 0)
     (snd (interactive_main no_files (procs_exit 0)
             (plain_answers\<lparr>ans_download_type := ''list'', ans_start := False\<rparr>) [])) =
     [[''yt-dlp'', ''--version''], [''yt-dlp'', ''-F'', ''https://example.org/v'']]"
    using processes_per_run
      [where procs = "procs_exit 0" and ex = no_files
         and ans = "plain_answers\<lparr>ans_download_type := ''list'', ans_start := False\<rparr>"]
    by (simp add: f a l procs_exit_def)
  from c1 c2 c3 c4 c5 show ?thesis by blast
qed

section \<open>Exit status\<close>

lemma download_eq:
  "download ex procs a w =
     (case procs (spawn_count w) (download_cmd ex a) of
        Exited rc \<Rightarrow>
          if rc = 0 then (Return (), cookies_warning ex a w @ [Spawn (download_cmd ex a)])
          else (SysExit 1,
                cookies_warning ex a w @
                [Spawn (download_cmd ex a), Print (ErrorDownloadingVideo (download_cmd ex a) rc)])
      | NotFound \<Rightarrow>
          (Raise FileNotFoundError, cookies_warning ex a w @ [Spawn (download_cmd ex a)]))"
  by (simp add: download_def Let_def subprocess_run_def print_line_def split: proc_result.split)

lemma main_reaches_download:
  assumes "\<not> (truthy (cookies a) \<and> truthy (browser a))"
    and "procs 0 [''yt-dlp'', ''--version''] = Exited 0"
  shows "main ex procs a [] = download ex procs a [Spawn [''yt-dlp'', ''--version'']]"
  using assms by (auto simp: main_def check_ytdlp_installed_eq)

lemma interactive_main_reaches_download:
  assumes "procs 0 [''yt-dlp'', ''--version''] = Exited 0"
    and "ans_download_type ans \<noteq> ''list''" and "ans_start ans"
  shows "interactive_main ex procs ans [] =
     (case interactive_download procs \<lparr>cookies_path = find_cookies_file ex\<rparr>
            (answers_args \<lparr>cookies_path = find_cookies_file ex\<rparr> ans (ans_download_type ans))
            (ans_format_choice ans)
            [Spawn [''yt-dlp'', ''--version''], Print Banner, Print Separator] of
        (r, self1, w1) \<Rightarrow> (r, w1))"
  using assms
  by (simp add: interactive_main_def init_def check_ytdlp_installed_eq run_interactive_def
      Let_def run_from_authentication_eq print_line_def)

lemma interactive_main_reaches_download_after_list:
  assumes "procs 0 [''yt-dlp'', ''--version''] = Exited 0"
    and "ans_download_type ans = ''list''" and "ans_urls ans = url # rest"
    and "procs 1 (interactive_formats_cmd \<lparr>cookies_path = find_cookies_file ex\<rparr> url
           (prompt_use_cookies \<lparr>cookies_path = find_cookies_file ex\<rparr>
              (ans_list_use_cookies ans))) = Exited rcf"
    and "ans_start ans"
  shows "interactive_main ex procs ans [] =
     (case interactive_download procs \<lparr>cookies_path = find_cookies_file ex\<rparr>
            (answers_args \<lparr>cookies_path = find_cookies_file ex\<rparr> ans
               (ans_download_type_again ans))
            (ans_format_choice ans)
            ([Spawn [''yt-dlp'', ''--version''], Print Banner, Print AvailableFormats,
              Spawn (interactive_formats_cmd \<lparr>cookies_path = find_cookies_file ex\<rparr> url
                       (prompt_use_cookies \<lparr>cookies_path = find_cookies_file ex\<rparr>
                          (ans_list_use_cookies ans)))] @
             (if rcf = 0 then []
              else [Print (ErrorGettingFormats
                      (interactive_formats_cmd \<lparr>cookies_path = find_cookies_file ex\<rparr> url
                         (prompt_use_cookies \<lparr>cookies_path = find_cookies_file ex\<rparr>
                            (ans_list_use_cookies ans))) rcf)]) @
             [Print Separator]) of
        (r, self1, w1) \<Rightarrow> (r, w1))"
  using assms
  by (simp add: interactive_main_def init_def check_ytdlp_installed_eq run_interactive_def
      Let_def run_from_authentication_eq print_line_def interactive_get_available_formats_eq)

text \<open>
  C1, as the claim states it, fails: yt-dlp is installed, the download command ends
  with return code 2, and the script ends with exit status 1.
\<close>

theorem exit_status_not_relayed:
  "procs_exit 2 1 (download_cmd no_files plain_args) = Exited 2 \<and>
   exit_status (fst (main no_files (procs_exit 2) plain_args [])) = 1"
  by (simp add: main_def check_ytdlp_installed_procs_exit fst_download download_cmd_plain_args
      procs_exit_other)

text \<open>
  C1, amended. In both scripts, when \<^verbatim>\<open>subprocess.run\<close> in \<open>download\<close> finds that
  the subprocess ended with a nonzero return code, \<open>download\<close> prints the error line and
  calls \<^verbatim>\<open>sys.exit(1)\<close>: the program ends with exit status 1, whatever the return code
  was. When the return code is 0, \<open>download\<close> returns (the interactive script prints
  its line of success first) and the program ends with exit status 0. This holds of
  each call of \<open>download\<close> and of every run of either script that reaches \<open>download\<close>:
  the flag-parsing script after the validation of the cookie options and the check for
  yt-dlp, the interactive script after the check (and the listing of formats, if
  chosen) once the user confirms the start.
\<close>

theorem download_exit_status:
  "(procs (spawn_count w) (download_cmd ex a) = Exited rc \<longrightarrow>
      download ex procs a w =
        (if rc = 0 then (Return (), cookies_warning ex a w @ [Spawn (download_cmd ex a)])
         else (SysExit 1,
               cookies_warning ex a w @
               [Spawn (download_cmd ex a),
                Print (ErrorDownloadingVideo (download_cmd ex a) rc)])) \<and>
      exit_status (fst (download ex procs a w)) = (if rc = 0 then 0 else 1)) \<and>
   (procs (spawn_count w) (interactive_download_cmd self ia format_choice) = Exited rc \<longrightarrow>
      interactive_download procs self ia format_choice w =
        (if rc = 0
         then (Return (), self,
               w @ [Spawn (interactive_download_cmd self ia format_choice),
                    Print DownloadCompleted])
         else (SysExit 1, self,
               w @ [Spawn (interactive_download_cmd self ia format_choice),
                    Print (ErrorDownloadingVideo
                             (interactive_download_cmd self ia format_choice) rc)])) \<and>
      exit_status (fst (interactive_download procs self ia format_choice w)) =
        (if rc = 0 then 0 else 1)) \<and>
   (\<not> (truthy (cookies a) \<and> truthy (browser a)) \<and>
    procs 0 [''yt-dlp'', ''--version''] = Exited 0 \<and>
    procs 1 (download_cmd ex a) = Exited rc \<longrightarrow>
      main ex procs a [] =
        (if rc = 0
         then (Return (),
               cookies_warning ex a [Spawn [''yt-dlp'', ''--version'']] @
               [Spawn (download_cmd ex a)])
         else (SysExit 1,
               cookies_warning ex a [Spawn [''yt-dlp'', ''--version'']] @
               [Spawn (download_cmd ex a),
                Print (ErrorDownloadingVideo (download_cmd ex a) rc)])) \<and>
      exit_status (fst (main ex procs a [])) = (if rc = 0 then 0 else 1)) \<and>
   (procs 0 [''yt-dlp'', ''--version''] = Exited 0 \<and>
    ans_download_type ans \<noteq> ''list'' \<and> ans_start ans \<and>
    procs 1 (interactive_download_cmd \<lparr>cookies_path = find_cookies_file ex\<rparr>
               (answers_args \<lparr>cookies_path = find_cookies_file ex\<rparr> ans
                  (ans_download_type ans))
               (ans_format_choice ans)) = Exited rc \<longrightarrow>
      fst (interactive_main ex procs ans []) = (if rc = 0 then Return () else SysExit 1) \<and>
      exit_status (fst (interactive_main ex procs ans [])) = (if rc = 0 then 0 else 1) \<and>
      last (snd (interactive_main ex procs ans [])) =
        (if rc = 0 then Print DownloadCompleted
         else Print (ErrorDownloadingVideo
                (interactive_download_cmd \<lparr>cookies_path = find_cookies_file ex\<rparr>
                   (answers_args \<lparr>cookies_path = find_cookies_file ex\<rparr> ans
                      (ans_download_type ans))
                   (ans_format_choice ans)) rc))) \<and>
   (procs 0 [''yt-dlp'', ''--version''] = Exited 0 \<and>
    ans_download_type ans = ''list'' \<and> ans_urls ans = url # rest \<and>
    procs 1 (interactive_formats_cmd \<lparr>cookies_path = find_cookies_file ex\<rparr> url
               (prompt_use_cookies \<lparr>cookies_path = find_cookies_file ex\<rparr>
                  (ans_list_use_cookies ans))) = Exited rcf \<and>
    ans_start ans \<and>
    procs 2 (interactive_download_cmd \<lparr>cookies_path = find_cookies_file ex\<rparr>
               (answers_args \<lparr>cookies_path = find_cookies_file ex\<rparr> ans
                  (ans_download_type_again ans))
               (ans_format_choice ans)) = Exited rc \<longrightarrow>
      fst (interactive_main ex procs ans []) = (if rc = 0 then Return () else SysExit 1) \<and>
      exit_status (fst (interactive_main ex procs ans [])) = (if rc = 0 then 0 else 1) \<and>
      last (snd (interactive_main ex procs ans [])) =
        (if rc = 0 then Print DownloadCompleted
         else Print (ErrorDownloadingVideo
                (interactive_download_cmd \<lparr>cookies_path = find_cookies_file ex\<rparr>
                   (answers_args \<lparr>cookies_path = find_cookies_file ex\<rparr> ans
                      (ans_download_type_again ans))
                   (ans_format_choice ans)) rc)))"
proof -
  have 1: "procs (spawn_count w) (download_cmd ex a) = Exited rc \<longrightarrow>
      download ex procs a w =
        (if rc = 0 then (Return (), cookies_warning ex a w @ [Spawn (download_cmd ex a)])
         else (SysExit 1,
               cookies_warning ex a w @
               [Spawn (download_cmd ex a),
                Print (ErrorDownloadingVideo (download_cmd ex a) rc)])) \<and>
      exit_status (fst (download ex procs a w)) = (if rc = 0 then 0 else 1)"
    by (simp add: download_eq)
  have 2: "procs (spawn_count w) (interactive_download_cmd self ia format_choice) = Exited rc \<longrightarrow>
      interactive_download procs self ia format_choice w =
        (if rc = 0
         then (Return (), self,
               w @ [Spawn (interactive_download_cmd self ia format_choice),
                    Print DownloadCompleted])
         else (SysExit 1, self,
               w @ [Spawn (interactive_download_cmd self ia format_choice),
                    Print (ErrorDownloadingVideo
                             (interactive_download_cmd self ia format_choice) rc)])) \<and>
      exit_status (fst (interactive_download procs self ia format_choice w)) =
        (if rc = 0 then 0 else 1)"
    by (simp add: interactive_download_eq)
  have 3: "\<not> (truthy (cookies a) \<and> truthy (browser a)) \<and>
    procs 0 [''yt-dlp'', ''--version''] = Exited 0 \<and>
    procs 1 (download_cmd ex a) = Exited rc \<longrightarrow>
      main ex procs a [] =
        (if rc = 0
         then (Return (),
               cookies_warning ex a [Spawn [''yt-dlp'', ''--version'']] @
               [Spawn (download_cmd ex a)])
         else (SysExit 1,
               cookies_warning ex a [Spawn [''yt-dlp'', ''--version'']] @
               [Spawn (download_cmd ex a),
                Print (ErrorDownloadingVideo (download_cmd ex a) rc)])) \<and>
      exit_status (fst (main ex procs a [])) = (if rc = 0 then 0 else 1)"
    using main_reaches_download [of a procs ex] by (simp add: download_eq)
  have 4: "procs 0 [''yt-dlp'', ''--version''] = Exited 0 \<and>
    ans_download_type ans \<noteq> ''list'' \<and> ans_start ans \<and>
    procs 1 (interactive_download_cmd \<lparr>cookies_path = find_cookies_file ex\<rparr>
               (answers_args \<lparr>cookies_path = find_cookies_file ex\<rparr> ans
                  (ans_download_type ans))
               (ans_format_choice ans)) = Exited rc \<longrightarrow>
      fst (interactive_main ex procs ans []) = (if rc = 0 then Return () else SysExit 1) \<and>
      exit_status (fst (interactive_main ex procs ans [])) = (if rc = 0 then 0 else 1) \<and>
      last (snd (interactive_main ex procs ans [])) =
        (if rc = 0 then Print DownloadCompleted
         else Print (ErrorDownloadingVideo
                (interactive_download_cmd \<lparr>cookies_path = find_cookies_file ex\<rparr>
                   (answers_args \<lparr>cookies_path = find_cookies_file ex\<rparr> ans
                      (ans_download_type ans))
                   (ans_format_choice ans)) rc))"
    using interactive_main_reaches_download [of procs ans ex]
    by (simp add: interactive_download_eq)
  have 5: "procs 0 [''yt-dlp'', ''--version''] = Exited 0 \<and>
    ans_download_type ans = ''list'' \<and> ans_urls ans = url # rest \<and>
    procs 1 (interactive_formats_cmd \<lparr>cookies_path = find_cookies_file ex\<rparr> url
               (prompt_use_cookies \<lparr>cookies_path = find_cookies_file ex\<rparr>
                  (ans_list_use_cookies ans))) = Exited rcf \<and>
    ans_start ans \<and>
    procs 2 (interactive_download_cmd \<lparr>cookies_path = find_cookies_file ex\<rparr>
               (answers_args \<lparr>cookies_path = find_cookies_file ex\<rparr> ans
                  (ans_download_type_again ans))
               (ans_format_choice ans)) = Exited rc \<longrightarrow>
      fst (interactive_main ex procs ans []) = (if rc = 0 then Return () else SysExit 1) \<and>
      exit_status (fst (interactive_main ex procs ans [])) = (if rc = 0 then 0 else 1) \<and>
      last (snd (interactive_main ex procs ans [])) =
        (if rc = 0 then Print DownloadCompleted
         else Print (ErrorDownloadingVideo
                (interactive_download_cmd \<lparr>cookies_path = find_cookies_file ex\<rparr>
                   (answers_args \<lparr>cookies_path = find_cookies_file ex\<rparr> ans
                      (ans_download_type_again ans))
                   (ans_format_choice ans)) rc))"
    using interactive_main_reaches_download_after_list [of procs ans url rest ex rcf]
    by (cases "rcf = 0") (simp_all add: interactive_download_eq numeral_2_eq_2)
  from 1 2 3 4 5 show ?thesis by blast
qed

theorem download_exit_status_witness:
  "procs_exit 2 (spawn_count []) (download_cmd no_files plain_args) = Exited 2 \<and>
   download no_files (procs_exit 2) plain_args [] =
     (SysExit 1,
      [Spawn [''yt-dlp'', ''--no-playlist'', ''https://example.org/v''],
       Print (ErrorDownloadingVideo [''yt-dlp'', ''--no-playlist'', ''https://example.org/v''] 2)]) \<and>
   procs_exit 0 (spawn_count [])
     (interactive_download_cmd no_cookies plain_interactive_args []) = Exited 0 \<and>
   fst (interactive_download (procs_exit 0) no_cookies plain_interactive_args [] []) = Return () \<and>
   \<not> (truthy (cookies plain_args) \<and> truthy (browser plain_args)) \<and>
   procs_exit 2 0 [''yt-dlp'', ''--version''] = Exited 0 \<and>
   procs_exit 2 1 (download_cmd no_files plain_args) = Exited 2 \<and>
   exit_status (fst (main no_files (procs_exit 2) plain_args [])) = 1 \<and>
   ans_download_type plain_answers \<noteq> ''list'' \<and> ans_start plain_answers \<and>
   exit_status (fst (interactive_main no_files (procs_exit 2) plain_answers [])) = 1 \<and>
   exit_status
     (fst (interactive_main no_files (procs_exit 0)
             (plain_answers\<lparr>ans_download_type := ''list''\<rparr>) [])) = 0"
proof -
  have f: "find_cookies_file no_files = None"
    by (simp add: find_cookies_file_def cookie_files_def no_files_def)
  have d: "interactive_download_cmd \<lparr>cookies_path = None\<rparr>
      (answers_args \<lparr>cookies_path = None\<rparr> plain_answers ''video'') ''bestvideo+bestaudio'' =
     [''yt-dlp'', ''-f'', ''bestvideo[ext=mp4]+bestaudio[ext=m4a]/best[ext=mp4]'',
      ''-o'', ''%(title)s.%(ext)s'', ''https://example.org/v'']"
    by (simp add: interactive_download_cmd_def answers_args_def plain_answers_def Let_def
        prompt_use_cookies_def truthy_def)
  have d2: "interactive_download_cmd \<lparr>cookies_path = None\<rparr>
      (answers_args \<lparr>cookies_path = None\<rparr> (plain_answers\<lparr>ans_download_type := ''list''\<rparr>)
         ''video'') ''bestvideo+bestaudio'' =
     [''yt-dlp'', ''-f'', ''bestvideo[ext=mp4]+bestaudio[ext=m4a]/best[ext=mp4]'',
      ''-o'', ''%(title)s.%(ext)s'', ''https://example.org/v'']"
    by (simp add: interactive_download_cmd_def answers_args_def plain_answers_def Let_def
        prompt_use_cookies_def truthy_def)
  have l: "interactive_formats_cmd \<lparr>cookies_path = None\<rparr> ''https://example.org/v''
      (prompt_use_cookies \<lparr>cookies_path = None\<rparr> False) =
     [''yt-dlp'', ''-F'', ''https://example.org/v'']"
    by (simp add: interactive_formats_cmd_def prompt_use_cookies_def truthy_def)
  have a: "ans_download_type plain_answers = ''video''" "ans_start plain_answers"
    "ans_format_choice plain_answers = ''bestvideo+bestaudio''"
    "ans_urls plain_answers = [''https://example.org/v'']"
    "\<not> ans_list_use_cookies plain_answers"
    "ans_download_type_again plain_answers = ''video''"
    by (simp_all add: plain_answers_def)
  have h1: "procs_exit 2 (spawn_count []) (download_cmd no_files plain_args) = Exited 2"
    by (simp add: download_cmd_plain_args procs_exit_other)
  have h2: "procs_exit 0 (spawn_count [])
     (interactive_download_cmd no_cookies plain_interactive_args []) = Exited 0"
    by (simp add: interactive_download_cmd_plain procs_exit_other)
  have h3: "\<not> (truthy (cookies plain_args) \<and> truthy (browser plain_args)) \<and>
      procs_exit 2 0 [''yt-dlp'', ''--version''] = Exited 0 \<and>
      procs_exit 2 1 (download_cmd no_files plain_args) = Exited 2"
    by (simp add: download_cmd_plain_args procs_exit_def)
  have h4: "procs_exit 2 0 [''yt-dlp'', ''--version''] = Exited 0 \<and>
      ans_download_type plain_answers \<noteq> ''list'' \<and> ans_start plain_answers \<and>
      procs_exit 2 1
        (interactive_download_cmd \<lparr>cookies_path = find_cookies_file no_files\<rparr>
           (answers_args \<lparr>cookies_path = find_cookies_file no_files\<rparr> plain_answers
              (ans_download_type plain_answers))
           (ans_format_choice plain_answers)) = Exited 2"
    by (simp add: f a d procs_exit_def)
  have h5: "procs_exit 0 0 [''yt-dlp'', ''--version''] = Exited 0 \<and>
      ans_download_type (plain_answers\<lparr>ans_download_type := ''list''\<rparr>) = ''list'' \<and>
      ans_urls (plain_answers\<lparr>ans_download_type := ''list''\<rparr>) = ''https://example.org/v'' # [] \<and>
      procs_exit 0 1
        (interactive_formats_cmd \<lparr>cookies_path = find_cookies_file no_files\<rparr>
           ''https://example.org/v''
           (prompt_use_cookies \<lparr>cookies_path = find_cookies_file no_files\<rparr>
              (ans_list_use_cookies (plain_answers\<lparr>ans_download_type := ''list''\<rparr>)))) =
        Exited 0 \<and>
      ans_start (plain_answers\<lparr>ans_download_type := ''list''\<rparr>) \<and>
      procs_exit 0 2
        (interactive_download_cmd \<lparr>cookies_path = find_cookies_file no_files\<rparr>
           (answers_args \<lparr>cookies_path = find_cookies_file no_files\<rparr>
              (plain_answers\<lparr>ans_download_type := ''list''\<rparr>)
              (ans_download_type_again (plain_answers\<lparr>ans_download_type := ''list''\<rparr>)))
           (ans_format_choice (plain_answers\<lparr>ans_download_type := ''list''\<rparr>))) = Exited 0"
    by (simp add: f a d2 l procs_exit_def)
  note i1 = download_exit_status
    [where procs = "procs_exit 2" and w = "[]" and ex = no_files and a = plain_args and rc = 2,
      THEN conjunct1, THEN mp, OF h1, THEN conjunct1]
  then have c1: "download no_files (procs_exit 2) plain_args [] =
     (SysExit 1,
      [Spawn [''yt-dlp'', ''--no-playlist'', ''https://example.org/v''],
       Print (ErrorDownloadingVideo [''yt-dlp'', ''--no-playlist'', ''https://example.org/v''] 2)])"
    by (simp add: download_cmd_plain_args cookies_warning_def)
  note i2 = download_exit_status
    [where procs = "procs_exit 0" and w = "[]" and self = no_cookies
       and ia = plain_interactive_args and format_choice = "[]" and rc = 0,
      THEN conjunct2, THEN conjunct1, THEN mp, OF h2, THEN conjunct1]
  then have c2: "fst (interactive_download (procs_exit 0) no_cookies plain_interactive_args [] [])
      = Return ()"
    by simp
  note i3 = download_exit_status
    [where procs = "procs_exit 2" and ex = no_files and a = plain_args and rc = 2,
      THEN conjunct2, THEN conjunct2, THEN conjunct1, THEN mp, OF h3, THEN conjunct2]
  then have c3: "exit_status (fst (main no_files (procs_exit 2) plain_args [])) = 1"
    by simp
  note i4 = download_exit_status
    [where procs = "procs_exit 2" and ex = no_files and ans = plain_answers and rc = 2,
      THEN conjunct2, THEN conjunct2, THEN conjunct2, THEN conjunct1, THEN mp, OF h4,
      THEN conjunct2, THEN conjunct1]
  then have c4: "exit_status (fst (interactive_main no_files (procs_exit 2) plain_answers [])) = 1"
    by simp
  note i5 = download_exit_status
    [where procs = "procs_exit 0" and ex = no_files
       and ans = "plain_answers\<lparr>ans_download_type := ''list''\<rparr>"
       and url = "''https://example.org/v''" and rest = "[]" and rcf = 0 and rc = 0,
      THEN conjunct2, THEN conjunct2, THEN conjunct2, THEN conjunct2, THEN mp, OF h5,
      THEN conjunct2, THEN conjunct1]
  then have c5: "exit_status
     (fst (interactive_main no_files (procs_exit 0)
             (plain_answers\<lparr>ans_download_type := ''list''\<rparr>) [])) = 0"
    by simp
  have a1: "ans_download_type plain_answers \<noteq> ''list''"
    by (simp add: a)
  show ?thesis
    by (intro conjI h1 c1 h2 c2 h3 [THEN conjunct1] h3 [THEN conjunct2, THEN conjunct1]
        h3 [THEN conjunct2, THEN conjunct2] c3 a1 a(2) c4 c5)
qed

section \<open>The playlist switch\<close>

lemma no_playlist_flag_flag_script:
  "\<not> playlist a \<Longrightarrow> ''--no-playlist'' \<in> set (download_cmd ex a)"
  by (simp add: download_cmd_parts playlist_args_def)

lemma no_playlist_flag_options_given:
  "options_given ia \<Longrightarrow> \<not> selected ia ''playlist'' \<Longrightarrow>
   ''--no-playlist'' \<in> set (interactive_download_cmd self ia format_choice)"
  by (simp add: interactive_download_cmd_parts interactive_playlist_args_def)

lemma no_playlist_flag_no_options:
  "\<not> options_given ia \<Longrightarrow>
   interactive_subtitle_args ia = [] \<and> interactive_playlist_args ia = [] \<and>
   interactive_embed_args ia = []"
  by (simp add: interactive_seg_defs)

text \<open>
  C2. The claim is what the flag-parsing script does, and what the interactive script
  does as soon as one extra option is ticked (the two lemmas above). The interactive
  script with no extra option ticked does not do it: the playlist test sits under
  \<^verbatim>\<open>if extra_options:\<close>, which the empty list fails, so the whole block is skipped
  and the command has no \<^verbatim>\<open>--no-playlist\<close> although playlist is not selected. The
  flag-parsing script, given the same choices, puts the flag in.
\<close>

theorem no_playlist_flag_missing:
  "extra_options plain_interactive_args = Some [] \<and>
   \<not> selected plain_interactive_args ''playlist'' \<and>
   interactive_download_cmd no_cookies plain_interactive_args [] =
     [''yt-dlp'', ''-f'', ''bestvideo[ext=mp4]+bestaudio[ext=m4a]/best[ext=mp4]'',
      ''-o'', ''%(title)s.%(ext)s'', ''https://example.org/v''] \<and>
   ''--no-playlist'' \<notin> set (interactive_download_cmd no_cookies plain_interactive_args []) \<and>
   \<not> playlist plain_args \<and>
   download_cmd no_files plain_args =
     [''yt-dlp'', ''--no-playlist'', ''https://example.org/v'']"
  by (simp add: interactive_download_cmd_plain download_cmd_plain_args selected_def)
     (simp add: plain_interactive_args_def plain_args_def)

section \<open>Audio only\<close>

text \<open>
  C3. With the audio-only type selected (in the flag-parsing script: \<open>audio_only\<close> set
  and no format given), the format selection of the command is exactly
  \<^verbatim>\<open>--extract-audio --audio-format mp3\<close>: the command is the program name and the cookie
  section, then these three tokens, then the remaining sections. No \<^verbatim>\<open>-f\<close> is put in:
  the format selection has none, and in the whole command a \<^verbatim>\<open>-f\<close> can only be a
  string of the caller's (a URL, say) copied as it is.
\<close>

theorem audio_format_selection:
  "(audio_only a \<and> \<not> truthy (format a) \<longrightarrow>
      format_args a = [''--extract-audio'', ''--audio-format'', ''mp3''] \<and>
      ''-f'' \<notin> set (format_args a) \<and>
      download_cmd ex a =
        (''yt-dlp'' # cookie_args ex a) @ [''--extract-audio'', ''--audio-format'', ''mp3''] @
        (output_args a @ subtitle_args a @ playlist_args a @ embed_args a @ urls a) \<and>
      (''-f'' \<notin> supplied a \<longrightarrow> ''-f'' \<notin> set (download_cmd ex a))) \<and>
   (download_type ia = ''audio'' \<longrightarrow>
      interactive_format_args ia format_choice =
        [''--extract-audio'', ''--audio-format'', ''mp3''] \<and>
      ''-f'' \<notin> set (interactive_format_args ia format_choice) \<and>
      interactive_download_cmd self ia format_choice =
        (''yt-dlp'' # interactive_cookie_args self ia) @
        [''--extract-audio'', ''--audio-format'', ''mp3''] @
        (interactive_output_args ia @ interactive_subtitle_args ia @
         interactive_playlist_args ia @ interactive_embed_args ia @ urls_i ia) \<and>
      (''-f'' \<notin> interactive_supplied self ia format_choice \<longrightarrow>
         ''-f'' \<notin> set (interactive_download_cmd self ia format_choice)))"
proof -
  have 1: "audio_only a \<and> \<not> truthy (format a) \<longrightarrow>
      format_args a = [''--extract-audio'', ''--audio-format'', ''mp3''] \<and>
      ''-f'' \<notin> set (format_args a) \<and>
      download_cmd ex a =
        (''yt-dlp'' # cookie_args ex a) @ [''--extract-audio'', ''--audio-format'', ''mp3''] @
        (output_args a @ subtitle_args a @ playlist_args a @ embed_args a @ urls a)"
    by (simp add: download_cmd_parts format_args_def)
  have 2: "audio_only a \<and> \<not> truthy (format a) \<longrightarrow> ''-f'' \<notin> supplied a \<longrightarrow>
      ''-f'' \<notin> set (download_cmd ex a)"
    unfolding download_cmd_parts
    by (auto simp: part_defs supplied_def truthy_iff split: if_splits)
  have 3: "download_type ia = ''audio'' \<longrightarrow>
      interactive_format_args ia format_choice =
        [''--extract-audio'', ''--audio-format'', ''mp3''] \<and>
      ''-f'' \<notin> set (interactive_format_args ia format_choice) \<and>
      interactive_download_cmd self ia format_choice =
        (''yt-dlp'' # interactive_cookie_args self ia) @
        [''--extract-audio'', ''--audio-format'', ''mp3''] @
        (interactive_output_args ia @ interactive_subtitle_args ia @
         interactive_playlist_args ia @ interactive_embed_args ia @ urls_i ia)"
    by (simp add: interactive_download_cmd_parts interactive_format_args_def)
  have 4: "download_type ia = ''audio'' \<longrightarrow>
      ''-f'' \<notin> interactive_supplied self ia format_choice \<longrightarrow>
      ''-f'' \<notin> set (interactive_download_cmd self ia format_choice)"
    unfolding interactive_download_cmd_parts
    by (auto simp: interactive_seg_defs interactive_supplied_def truthy_iff split: if_splits)
  from 1 2 3 4 show ?thesis by blast
qed

theorem audio_format_selection_witness:
  "audio_only (plain_args\<lparr>audio_only := True\<rparr>) \<and>
   \<not> truthy (format (plain_args\<lparr>audio_only := True\<rparr>)) \<and>
   ''-f'' \<notin> supplied (plain_args\<lparr>audio_only := True\<rparr>) \<and>
   format_args (plain_args\<lparr>audio_only := True\<rparr>) =
     [''--extract-audio'', ''--audio-format'', ''mp3''] \<and>
   ''-f'' \<notin> set (download_cmd no_files (plain_args\<lparr>audio_only := True\<rparr>)) \<and>
   download_type (plain_interactive_args\<lparr>download_type := ''audio''\<rparr>) = ''audio'' \<and>
   ''-f'' \<notin> interactive_supplied no_cookies
              (plain_interactive_args\<lparr>download_type := ''audio''\<rparr>) [] \<and>
   interactive_format_args (plain_interactive_args\<lparr>download_type := ''audio''\<rparr>) [] =
     [''--extract-audio'', ''--audio-format'', ''mp3''] \<and>
   ''-f'' \<notin> set (interactive_download_cmd no_cookies
                  (plain_interactive_args\<lparr>download_type := ''audio''\<rparr>) [])"
proof -
  have h1: "audio_only (plain_args\<lparr>audio_only := True\<rparr>) \<and>
      \<not> truthy (format (plain_args\<lparr>audio_only := True\<rparr>))"
    and h2: "''-f'' \<notin> supplied (plain_args\<lparr>audio_only := True\<rparr>)"
    by (simp_all add: plain_args_def supplied_def truthy_def)
  have h3: "download_type (plain_interactive_args\<lparr>download_type := ''audio''\<rparr>) = ''audio''"
    and h4: "''-f'' \<notin> interactive_supplied no_cookies
                 (plain_interactive_args\<lparr>download_type := ''audio''\<rparr>) []"
    by (simp_all add: plain_interactive_args_def interactive_supplied_def no_cookies_def)
  note i1 = audio_format_selection
    [where a = "plain_args\<lparr>audio_only := True\<rparr>" and ex = no_files,
      THEN conjunct1, THEN mp, OF h1]
  note i2 = audio_format_selection
    [where ia = "plain_interactive_args\<lparr>download_type := ''audio''\<rparr>" and self = no_cookies
       and format_choice = "[]", THEN conjunct2, THEN mp, OF h3]
  show ?thesis
    by (intro conjI h1 [THEN conjunct1] h1 [THEN conjunct2] h2 h3 h4
        i1 [THEN conjunct1]
        i1 [THEN conjunct2, THEN conjunct2, THEN conjunct2, THEN mp, OF h2]
        i2 [THEN conjunct1]
        i2 [THEN conjunct2, THEN conjunct2, THEN conjunct2, THEN mp, OF h4])
qed

section \<open>Subtitles\<close>

text \<open>
  C4. With the subtitles option selected and language string \<open>L\<close>, the command contains
  the consecutive tokens \<^verbatim>\<open>--write-subs\<close>, \<^verbatim>\<open>--sub-langs\<close>, \<open>L\<close>, between the output
  section and the playlist section. Without the option none of the three is put in: the
  subtitle section is empty, the command is the other sections alone and is the same
  whatever \<open>L\<close> is, and a \<^verbatim>\<open>--write-subs\<close> or \<^verbatim>\<open>--sub-langs\<close> in it can only be a
  string of the caller's copied as it is.
\<close>

theorem subtitle_flags:
  "(subtitles a \<longrightarrow>
      subtitle_args a = [''--write-subs'', ''--sub-langs'', subtitles_lang a] \<and>
      download_cmd ex a =
        (''yt-dlp'' # cookie_args ex a @ format_args a @ output_args a) @
        [''--write-subs'', ''--sub-langs'', subtitles_lang a] @
        (playlist_args a @ embed_args a @ urls a)) \<and>
   (\<not> subtitles a \<longrightarrow>
      subtitle_args a = [] \<and>
      download_cmd ex a =
        (''yt-dlp'' # cookie_args ex a @ format_args a @ output_args a) @
        (playlist_args a @ embed_args a @ urls a) \<and>
      download_cmd ex (a\<lparr>subtitles_lang := L'\<rparr>) = download_cmd ex a \<and>
      (''--write-subs'' \<notin> supplied a \<longrightarrow> ''--write-subs'' \<notin> set (download_cmd ex a)) \<and>
      (''--sub-langs'' \<notin> supplied a \<longrightarrow> ''--sub-langs'' \<notin> set (download_cmd ex a))) \<and>
   (selected ia ''subtitles'' \<longrightarrow>
      interactive_subtitle_args ia = [''--write-subs'', ''--sub-langs'', subtitle_langs ia] \<and>
      interactive_download_cmd self ia format_choice =
        (''yt-dlp'' # interactive_cookie_args self ia @ interactive_format_args ia format_choice @
         interactive_output_args ia) @
        [''--write-subs'', ''--sub-langs'', subtitle_langs ia] @
        (interactive_playlist_args ia @ interactive_embed_args ia @ urls_i ia)) \<and>
   (\<not> selected ia ''subtitles'' \<longrightarrow>
      interactive_subtitle_args ia = [] \<and>
      interactive_download_cmd self ia format_choice =
        (''yt-dlp'' # interactive_cookie_args self ia @ interactive_format_args ia format_choice @
         interactive_output_args ia) @
        (interactive_playlist_args ia @ interactive_embed_args ia @ urls_i ia) \<and>
      interactive_download_cmd self (ia\<lparr>subtitle_langs := L'\<rparr>) format_choice =
        interactive_download_cmd self ia format_choice \<and>
      (''--write-subs'' \<notin> interactive_supplied self ia format_choice \<longrightarrow>
         ''--write-subs'' \<notin> set (interactive_download_cmd self ia format_choice)) \<and>
      (''--sub-langs'' \<notin> interactive_supplied self ia format_choice \<longrightarrow>
         ''--sub-langs'' \<notin> set (interactive_download_cmd self ia format_choice)))"
proof -
  have 1: "subtitles a \<longrightarrow>
      subtitle_args a = [''--write-subs'', ''--sub-langs'', subtitles_lang a] \<and>
      download_cmd ex a =
        (''yt-dlp'' # cookie_args ex a @ format_args a @ output_args a) @
        [''--write-subs'', ''--sub-langs'', subtitles_lang a] @
        (playlist_args a @ embed_args a @ urls a)"
    by (simp add: download_cmd_parts subtitle_args_def)
  have 2: "\<not> subtitles a \<longrightarrow>
      subtitle_args a = [] \<and>
      download_cmd ex a =
        (''yt-dlp'' # cookie_args ex a @ format_args a @ output_args a) @
        (playlist_args a @ embed_args a @ urls a) \<and>
      download_cmd ex (a\<lparr>subtitles_lang := L'\<rparr>) = download_cmd ex a"
    by (simp add: download_cmd_parts part_defs)
  have 3: "\<not> subtitles a \<longrightarrow> ''--write-subs'' \<notin> supplied a \<longrightarrow>
      ''--write-subs'' \<notin> set (download_cmd ex a)"
    unfolding download_cmd_parts
    by (auto simp: part_defs supplied_def truthy_iff split: if_splits)
  have 4: "\<not> subtitles a \<longrightarrow> ''--sub-langs'' \<notin> supplied a \<longrightarrow>
      ''--sub-langs'' \<notin> set (download_cmd ex a)"
    unfolding download_cmd_parts
    by (auto simp: part_defs supplied_def truthy_iff split: if_splits)
  have 5: "selected ia ''subtitles'' \<longrightarrow>
      interactive_subtitle_args ia = [''--write-subs'', ''--sub-langs'', subtitle_langs ia] \<and>
      interactive_download_cmd self ia format_choice =
        (''yt-dlp'' # interactive_cookie_args self ia @ interactive_format_args ia format_choice @
         interactive_output_args ia) @
        [''--write-subs'', ''--sub-langs'', subtitle_langs ia] @
        (interactive_playlist_args ia @ interactive_embed_args ia @ urls_i ia)"
    using selected_options_given [of ia "''subtitles''"]
    by (simp add: interactive_download_cmd_parts interactive_subtitle_args_def)
  have 6: "\<not> selected ia ''subtitles'' \<longrightarrow>
      interactive_subtitle_args ia = [] \<and>
      interactive_download_cmd self ia format_choice =
        (''yt-dlp'' # interactive_cookie_args self ia @ interactive_format_args ia format_choice @
         interactive_output_args ia) @
        (interactive_playlist_args ia @ interactive_embed_args ia @ urls_i ia) \<and>
      interactive_download_cmd self (ia\<lparr>subtitle_langs := L'\<rparr>) format_choice =
        interactive_download_cmd self ia format_choice"
    by (simp add: interactive_download_cmd_parts interactive_part_defs)
  have 7: "\<not> selected ia ''subtitles'' \<longrightarrow>
      ''--write-subs'' \<notin> interactive_supplied self ia format_choice \<longrightarrow>
      ''--write-subs'' \<notin> set (interactive_download_cmd self ia format_choice)"
    unfolding interactive_download_cmd_parts
    by (auto simp: interactive_seg_defs interactive_supplied_def truthy_iff split: if_splits)
  have 8: "\<not> selected ia ''subtitles'' \<longrightarrow>
      ''--sub-langs'' \<notin> interactive_supplied self ia format_choice \<longrightarrow>
      ''--sub-langs'' \<notin> set (interactive_download_cmd self ia format_choice)"
    unfolding interactive_download_cmd_parts
    by (auto simp: interactive_seg_defs interactive_supplied_def truthy_iff split: if_splits)
  from 1 2 3 4 5 6 7 8 show ?thesis by blast
qed

theorem subtitle_flags_witness:
  "subtitles (plain_args\<lparr>subtitles := True\<rparr>) \<and>
   download_cmd no_files (plain_args\<lparr>subtitles := True\<rparr>) =
     [''yt-dlp'', ''--write-subs'', ''--sub-langs'', ''en'', ''--no-playlist'',
      ''https://example.org/v''] \<and>
   \<not> subtitles plain_args \<and> ''--write-subs'' \<notin> supplied plain_args \<and>
   ''--sub-langs'' \<notin> supplied plain_args \<and>
   subtitle_args plain_args = [] \<and>
   download_cmd no_files (plain_args\<lparr>subtitles_lang := ''de''\<rparr>) =
     download_cmd no_files plain_args \<and>
   ''--write-subs'' \<notin> set (download_cmd no_files plain_args) \<and>
   ''--sub-langs'' \<notin> set (download_cmd no_files plain_args) \<and>
   selected (plain_interactive_args\<lparr>extra_options := Some [''subtitles'']\<rparr>) ''subtitles'' \<and>
   interactive_download_cmd no_cookies
       (plain_interactive_args\<lparr>extra_options := Some [''subtitles'']\<rparr>) [] =
     [''yt-dlp'', ''-f'', ''bestvideo[ext=mp4]+bestaudio[ext=m4a]/best[ext=mp4]'',
      ''-o'', ''%(title)s.%(ext)s'', ''--write-subs'', ''--sub-langs'', ''en'', ''--no-playlist'',
      ''https://example.org/v''] \<and>
   \<not> selected plain_interactive_args ''subtitles'' \<and>
   ''--write-subs'' \<notin> interactive_supplied no_cookies plain_interactive_args [] \<and>
   ''--sub-langs'' \<notin> interactive_supplied no_cookies plain_interactive_args [] \<and>
   interactive_subtitle_args plain_interactive_args = [] \<and>
   ''--write-subs'' \<notin> set (interactive_download_cmd no_cookies plain_interactive_args []) \<and>
   ''--sub-langs'' \<notin> set (interactive_download_cmd no_cookies plain_interactive_args [])"
proof -
  have h1: "subtitles (plain_args\<lparr>subtitles := True\<rparr>)"
    by simp
  have h2: "\<not> subtitles plain_args"
    and h3: "''--write-subs'' \<notin> supplied plain_args"
    and h4: "''--sub-langs'' \<notin> supplied plain_args"
    by (simp_all add: plain_args_def supplied_def)
  have h5: "selected (plain_interactive_args\<lparr>extra_options := Some [''subtitles'']\<rparr>) ''subtitles''"
    by (simp add: selected_def)
  have h6: "\<not> selected plain_interactive_args ''subtitles''"
    and h7: "''--write-subs'' \<notin> interactive_supplied no_cookies plain_interactive_args []"
    and h8: "''--sub-langs'' \<notin> interactive_supplied no_cookies plain_interactive_args []"
    by (simp_all add: selected_def plain_interactive_args_def interactive_supplied_def
        no_cookies_def)
  note i1 = subtitle_flags
    [where a = "plain_args\<lparr>subtitles := True\<rparr>" and ex = no_files,
      THEN conjunct1, THEN mp, OF h1, THEN conjunct2]
  note i2 = subtitle_flags
    [where a = plain_args and ex = no_files and L' = "''de''",
      THEN conjunct2, THEN conjunct1, THEN mp, OF h2]
  note i3 = subtitle_flags
    [where ia = "plain_interactive_args\<lparr>extra_options := Some [''subtitles'']\<rparr>"
       and self = no_cookies and format_choice = "[]",
      THEN conjunct2, THEN conjunct2, THEN conjunct1, THEN mp, OF h5, THEN conjunct2]
  note i4 = subtitle_flags
    [where ia = plain_interactive_args and self = no_cookies and format_choice = "[]",
      THEN conjunct2, THEN conjunct2, THEN conjunct2, THEN mp, OF h6]
  from i1 have c1: "download_cmd no_files (plain_args\<lparr>subtitles := True\<rparr>) =
     [''yt-dlp'', ''--write-subs'', ''--sub-langs'', ''en'', ''--no-playlist'',
      ''https://example.org/v'']"
    by (simp add: part_defs plain_args_def truthy_def)
  from i3 have c2: "interactive_download_cmd no_cookies
       (plain_interactive_args\<lparr>extra_options := Some [''subtitles'']\<rparr>) [] =
     [''yt-dlp'', ''-f'', ''bestvideo[ext=mp4]+bestaudio[ext=m4a]/best[ext=mp4]'',
      ''-o'', ''%(title)s.%(ext)s'', ''--write-subs'', ''--sub-langs'', ''en'', ''--no-playlist'',
      ''https://example.org/v'']"
    by (simp add: interactive_part_defs plain_interactive_args_def no_cookies_def truthy_def)
  show ?thesis
    by (intro conjI h1 c1 h2 h3 h4 i2 [THEN conjunct1]
        i2 [THEN conjunct2, THEN conjunct2, THEN conjunct1]
        i2 [THEN conjunct2, THEN conjunct2, THEN conjunct2, THEN conjunct1, THEN mp, OF h3]
        i2 [THEN conjunct2, THEN conjunct2, THEN conjunct2, THEN conjunct2, THEN mp, OF h4]
        h5 c2 h6 h7 h8 i4 [THEN conjunct1]
        i4 [THEN conjunct2, THEN conjunct2, THEN conjunct2, THEN conjunct1, THEN mp, OF h7]
        i4 [THEN conjunct2, THEN conjunct2, THEN conjunct2, THEN conjunct2, THEN mp, OF h8])
qed

end
